theory Spec2Isabelle
  imports Main "HOL-Library.Log_Nat" "HOL-Library.AList"
begin

section \<open>JavaScript numbers\<close>

text \<open>
  A JavaScript number is an IEEE 754 binary64 value. The finite ones are rational
  numbers, so a number is modelled by the rational it denotes, and every arithmetic
  operation of the source is the exact operation followed by rounding to the nearest
  binary64 value, ties to the even significand (\<open>fl\<close>). Subnormal results are
  rounded on the fixed grid \<open>2 powi - 1074\<close>. \<open>NaN\<close> and the infinities are not
  values of the model: the numbers of a stored student are finite, and every quantity the
  risk functions compute from calculator outputs lies between 0 and 100. The one operation
  on unbounded inputs is \<^verbatim>\<open>cgpa + sgpa\<close>: where it would overflow to an infinity the
  model has a number beyond every threshold, and the comparisons that follow agree.

  \<open>expo x\<close> is the binary exponent of a positive \<open>x\<close>: the integer \<open>e\<close> with
  \<open>2 powi e \<le> x < 2 powi (e + 1)\<close>.
\<close>

definition expo :: "rat \<Rightarrow> int" where
  "expo x = (if 1 \<le> x then bitlen \<lfloor>x\<rfloor> - 1 else - bitlen (\<lceil>1 / x\<rceil> - 1))"

definition round_half_even :: "rat \<Rightarrow> int" where
  "round_half_even x =
     (let n = \<lfloor>x\<rfloor>; r = x - of_int n in
      if r < 1 / 2 then n else if 1 / 2 < r then n + 1 else if even n then n else n + 1)"

definition ulp :: "rat \<Rightarrow> rat" where
  "ulp x = 2 powi (max (expo x) (- 1022) - 52)"

definition fl :: "rat \<Rightarrow> rat" where
  "fl x = (if x = 0 then 0
           else if 0 < x then of_int (round_half_even (x / ulp x)) * ulp x
           else - (of_int (round_half_even (- x / ulp (- x))) * ulp (- x)))"

text \<open>A decimal literal of the source, such as \<^verbatim>\<open>0.25\<close>, denotes the binary64 value nearest
  to it. Integer literals of the source (\<^verbatim>\<open>90\<close>, \<^verbatim>\<open>1.0\<close>, \<^verbatim>\<open>200000\<close>) are binary64 values
  themselves and are written as numerals.\<close>

definition lit :: "rat \<Rightarrow> rat" where
  "lit d = fl d"

definition jsadd :: "rat \<Rightarrow> rat \<Rightarrow> rat" where
  "jsadd x y = fl (x + y)"

definition jsmul :: "rat \<Rightarrow> rat \<Rightarrow> rat" where
  "jsmul x y = fl (x * y)"

definition jsdiv :: "rat \<Rightarrow> rat \<Rightarrow> rat" where
  "jsdiv x y = fl (x / y)"

text \<open>\<^verbatim>\<open>Math.round\<close>: the nearest integer, a tie going towards plus infinity.\<close>

definition Math_round :: "rat \<Rightarrow> rat" where
  "Math_round x = of_int \<lfloor>x + 1 / 2\<rfloor>"

definition Math_min :: "rat \<Rightarrow> rat \<Rightarrow> rat" where
  "Math_min x y = min x y"

text \<open>
  An optional numeric property. The interface \<^verbatim>\<open>Student\<close> of the prediction function
  declares \<^verbatim>\<open>family_income?: number\<close>, so the property may be \<^verbatim>\<open>undefined\<close>; the
  repository's table type declares the column \<^verbatim>\<open>family_income: number | null\<close>, and
  \<^verbatim>\<open>select('*')\<close> delivers a missing value as \<^verbatim>\<open>null\<close>. Both are kept apart from a
  number, with JavaScript's coercions: in a relational comparison \<^verbatim>\<open>null\<close> converts to
  \<open>0\<close> and \<^verbatim>\<open>undefined\<close> to \<open>NaN\<close> (every comparison with it is false).
\<close>

datatype optnum = Undefined | Null | Num rat

fun to_number :: "optnum \<Rightarrow> rat option" where
  "to_number Undefined = None"
| "to_number Null = Some 0"
| "to_number (Num x) = Some x"

definition js_lt :: "optnum \<Rightarrow> rat \<Rightarrow> bool" where
  "js_lt v c = (case to_number v of None \<Rightarrow> False | Some x \<Rightarrow> x < c)"

definition js_gt :: "optnum \<Rightarrow> rat \<Rightarrow> bool" where
  "js_gt v c = (case to_number v of None \<Rightarrow> False | Some x \<Rightarrow> c < x)"

fun truthy :: "optnum \<Rightarrow> bool" where
  "truthy (Num x) = (x \<noteq> 0)"
| "truthy Undefined = False"
| "truthy Null = False"


section \<open>The prediction function (supabase/functions/predict-dropout-risk/index.ts)\<close>

record student =
  id' :: string
  attendance_percentage :: rat
  cgpa :: rat
  sgpa :: rat
  fee_default :: bool
  disciplinary_actions :: rat
  scholarship :: bool
  extracurriculars :: rat
  semester :: rat
  family_income :: optnum
  distance_from_home :: optnum
  hostel_accommodation :: bool
  previous_education_gap :: bool

datatype risk_level = Low | Medium | High

record factors =
  attendance_impact :: rat
  academic_impact :: rat
  financial_impact :: rat
  behavioral_impact :: rat
  engagement_impact :: rat

record prediction_result =
  risk_score :: rat
  risk_level :: risk_level
  prediction_factors :: factors

definition calculateAttendanceRisk :: "rat \<Rightarrow> rat" where
  "calculateAttendanceRisk attendance =
     (if attendance \<ge> 90 then lit (1 / 10)
      else if attendance \<ge> 80 then lit (3 / 10)
      else if attendance \<ge> 70 then lit (5 / 10)
      else if attendance \<ge> 60 then lit (7 / 10)
      else lit (9 / 10))"

definition calculateAcademicRisk :: "rat \<Rightarrow> rat \<Rightarrow> rat" where
  "calculateAcademicRisk cgpa' sgpa' =
     (let avgGpa = jsdiv (jsadd cgpa' sgpa') 2 in
      if avgGpa \<ge> 8 then lit (1 / 10)
      else if avgGpa \<ge> 7 then lit (2 / 10)
      else if avgGpa \<ge> 6 then lit (4 / 10)
      else if avgGpa \<ge> 5 then lit (6 / 10)
      else lit (8 / 10))"

definition calculateFinancialRisk :: "bool \<Rightarrow> bool \<Rightarrow> optnum \<Rightarrow> rat" where
  "calculateFinancialRisk feeDefault scholarship' familyIncome =
     (let risk = 0;
          risk = (if feeDefault then jsadd risk (lit (6 / 10)) else risk);
          risk = (if \<not> scholarship' then jsadd risk (lit (2 / 10)) else risk);
          risk = (if familyIncome \<noteq> Undefined then
                    (if js_lt familyIncome 200000 then jsadd risk (lit (3 / 10))
                     else if js_lt familyIncome 500000 then jsadd risk (lit (1 / 10))
                     else risk)
                  else risk)
      in Math_min risk 1)"

definition calculateBehavioralRisk :: "rat \<Rightarrow> rat" where
  "calculateBehavioralRisk disciplinaryActions =
     (if disciplinaryActions = 0 then lit (1 / 10)
      else if disciplinaryActions = 1 then lit (4 / 10)
      else if disciplinaryActions = 2 then lit (6 / 10)
      else lit (8 / 10))"

definition calculateEngagementRisk :: "rat \<Rightarrow> rat" where
  "calculateEngagementRisk extracurriculars' =
     (if extracurriculars' \<ge> 3 then lit (1 / 10)
      else if extracurriculars' \<ge> 2 then lit (2 / 10)
      else if extracurriculars' \<ge> 1 then lit (3 / 10)
      else lit (5 / 10))"

definition calculateDemographicRisk :: "student \<Rightarrow> rat" where
  "calculateDemographicRisk st =
     (let risk = 0;
          risk = (if truthy (distance_from_home st) \<and> js_gt (distance_from_home st) 500
                  then jsadd risk (lit (2 / 10)) else risk);
          risk = (if hostel_accommodation st then jsadd risk (lit (1 / 10)) else risk);
          risk = (if previous_education_gap st then jsadd risk (lit (3 / 10)) else risk);
          risk = (if semester st > 6 then jsadd risk (lit (1 / 10)) else risk)
      in Math_min risk 1)"

text \<open>The weighted sum \<^verbatim>\<open>riskScore\<close>, six products added from left to right.\<close>

definition weighted :: "rat \<Rightarrow> rat \<Rightarrow> rat \<Rightarrow> rat \<Rightarrow> rat \<Rightarrow> rat \<Rightarrow> rat" where
  "weighted attendanceRisk academicRisk financialRisk behavioralRisk engagementRisk demographicRisk =
     jsadd (jsadd (jsadd (jsadd (jsadd
       (jsmul attendanceRisk (lit (25 / 100)))
       (jsmul academicRisk (lit (20 / 100))))
       (jsmul financialRisk (lit (15 / 100))))
       (jsmul behavioralRisk (lit (15 / 100))))
       (jsmul engagementRisk (lit (10 / 100))))
       (jsmul demographicRisk (lit (15 / 100)))"

text \<open>The local \<^verbatim>\<open>riskScore\<close> of \<^verbatim>\<open>predictDropoutRisk\<close>, before it is rounded.\<close>

definition riskScore :: "student \<Rightarrow> rat" where
  "riskScore st =
     weighted (calculateAttendanceRisk (attendance_percentage st))
       (calculateAcademicRisk (cgpa st) (sgpa st))
       (calculateFinancialRisk (fee_default st) (scholarship st) (family_income st))
       (calculateBehavioralRisk (disciplinary_actions st))
       (calculateEngagementRisk (extracurriculars st))
       (calculateDemographicRisk st)"

text \<open>\<^verbatim>\<open>Math.round(x * 100) / 100\<close>.\<close>

definition round2 :: "rat \<Rightarrow> rat" where
  "round2 x = jsdiv (Math_round (jsmul x 100)) 100"

definition predictDropoutRisk :: "student \<Rightarrow> prediction_result" where
  "predictDropoutRisk st =
     (let riskLevel = (if riskScore st \<ge> lit (7 / 10) then High
                       else if riskScore st \<ge> lit (4 / 10) then Medium
                       else Low)
      in \<lparr> risk_score = round2 (riskScore st),
           risk_level = riskLevel,
           prediction_factors =
             \<lparr> attendance_impact = round2 (calculateAttendanceRisk (attendance_percentage st)),
               academic_impact = round2 (calculateAcademicRisk (cgpa st) (sgpa st)),
               financial_impact =
                 round2 (calculateFinancialRisk (fee_default st) (scholarship st) (family_income st)),
               behavioral_impact = round2 (calculateBehavioralRisk (disciplinary_actions st)),
               engagement_impact = round2 (calculateEngagementRisk (extracurriculars st)) \<rparr> \<rparr>)"


text \<open>The largest demographic risk: all four contributions, added in the order of the
  source (it is \<^verbatim>\<open>0.7000000000000001\<close>).\<close>

definition demographic_max :: rat where
  "demographic_max =
     jsadd (jsadd (jsadd (jsadd 0 (lit (2 / 10))) (lit (1 / 10))) (lit (3 / 10))) (lit (1 / 10))"



subsection \<open>Concrete students\<close>

text \<open>Every calculator at its minimum.\<close>

definition best_student :: student where
  "best_student =
     \<lparr> id' = ''best'', attendance_percentage = 95, cgpa = 9, sgpa = 9, fee_default = False,
       disciplinary_actions = 0, scholarship = True, extracurriculars = 3, semester = 1,
       family_income = Undefined, distance_from_home = Undefined, hostel_accommodation = False,
       previous_education_gap = False \<rparr>"

text \<open>Every calculator at its maximum.\<close>

definition worst_student :: student where
  "worst_student =
     \<lparr> id' = ''worst'', attendance_percentage = 50, cgpa = 4, sgpa = 4, fee_default = True,
       disciplinary_actions = 3, scholarship = False, extracurriculars = 0, semester = 7,
       family_income = Num 100000, distance_from_home = Num 600, hostel_accommodation = True,
       previous_education_gap = True \<rparr>"

text \<open>Scenario 2 of the specification.\<close>

definition scenario2 :: student where
  "scenario2 =
     \<lparr> id' = ''scenario2'', attendance_percentage = lit (682 / 10), cgpa = lit (59 / 10),
       sgpa = lit (61 / 10), fee_default = True, disciplinary_actions = 2, scholarship = False,
       extracurriculars = 0, semester = 7, family_income = Undefined,
       distance_from_home = Undefined, hostel_accommodation = False,
       previous_education_gap = False \<rparr>"

text \<open>A student whose weighted score is \<^verbatim>\<open>0.395\<close>
  (0.1, 0.6, 0.8, 0.8, 0.1 and 0 from the six calculators).\<close>

definition edge_low_student :: student where
  "edge_low_student =
     \<lparr> id' = ''edge-low'', attendance_percentage = 95, cgpa = 5, sgpa = 5, fee_default = True,
       disciplinary_actions = 3, scholarship = False, extracurriculars = 3, semester = 4,
       family_income = Undefined, distance_from_home = Undefined, hostel_accommodation = False,
       previous_education_gap = False \<rparr>"

text \<open>A student whose weighted score is \<^verbatim>\<open>0.6950000000000001\<close>
  (0.9, 0.6, 0.8, 0.8, 0.5 and 0.4 from the six calculators).\<close>

definition edge_medium_student :: student where
  "edge_medium_student =
     \<lparr> id' = ''edge-medium'', attendance_percentage = 50, cgpa = 5, sgpa = 5, fee_default = True,
       disciplinary_actions = 3, scholarship = False, extracurriculars = 0, semester = 7,
       family_income = Undefined, distance_from_home = Undefined, hostel_accommodation = False,
       previous_education_gap = True \<rparr>"

section \<open>The request handler \<^verbatim>\<open>serve\<close> (same file)\<close>

text \<open>
  The request: its method (\<^verbatim>\<open>req.method\<close>) and the outcome of \<^verbatim>\<open>await req.json()\<close>, which either
  rejects (\<open>Inl\<close>, with the message of the error thrown) or yields the two properties
  the handler destructures. \<open>None\<close> is an absent property. The flag is a boolean and the
  identifiers are an array of strings, as the callers of the function send them.
\<close>

record req_body =
  studentIds :: "string list option"
  processNewStudents :: "bool option"

record request =
  req_method :: string
  json :: "string + req_body"

text \<open>One element of the array passed to \<^verbatim>\<open>upsert\<close>:
  \<^verbatim>\<open>{id, risk_score, risk_level, prediction_factors}\<close>.\<close>

datatype update = Update string rat risk_level factors

fun to_update :: "string \<times> prediction_result \<Rightarrow> update" where
  "to_update (i, prediction) =
     Update i (risk_score prediction) (risk_level prediction) (prediction_factors prediction)"

text \<open>
  The record store is a collaborator outside the repository (the Supabase client). It is a
  parameter of the model: a store state of any type \<open>'st\<close> and the three calls the handler
  makes. A call returns \<^verbatim>\<open>{data, error}\<close> and reports a failure there, it does not
  throw; \<open>error\<close> is \<open>None\<close> for \<^verbatim>\<open>null\<close> and \<open>Some m\<close> for an error object with
  message \<open>m\<close>. Reading does not change the store.
\<close>

record 'st client =
  select_risk_score_is_null :: "'st \<Rightarrow> student list option \<times> string option"
  select_id_in :: "string list \<Rightarrow> 'st \<Rightarrow> student list option \<times> string option"
  upsert :: "update list \<Rightarrow> 'st \<Rightarrow> string option \<times> 'st"

text \<open>The calls made on the store, in order; an upsert is logged with its batch and
  whether it succeeded.\<close>

datatype store_call = SelectIsNull | SelectIn "string list" | Upsert "update list" bool

text \<open>The response: status and JSON body. \<open>Summary p t\<close> is the body
  \<^verbatim>\<open>{message: `Successfully processed ${p} students`, processedCount: p, totalCount: t}\<close>.\<close>

datatype resp_body = NoBody | ErrorBody string | Summary nat nat

record response =
  status :: nat
  body :: resp_body

definition batchSize :: nat where
  "batchSize = 50"

text \<open>\<^verbatim>\<open>xs.slice(i, j)\<close> for \<open>0 \<le> i \<le> j\<close>.\<close>

definition slice :: "'a list \<Rightarrow> nat \<Rightarrow> nat \<Rightarrow> 'a list" where
  "slice xs i j = take (j - i) (drop i xs)"

text \<open>The persistence loop \<^verbatim>\<open>for (let i = 0; i < predictions.length; i += batchSize)\<close>,
  from index \<open>i\<close> on, with the running \<^verbatim>\<open>updatedCount\<close>, the store and the log.\<close>

function persist ::
  "'st client \<Rightarrow> (string \<times> prediction_result) list \<Rightarrow> nat \<Rightarrow> nat \<Rightarrow> 'st \<Rightarrow> store_call list
     \<Rightarrow> nat \<times> 'st \<times> store_call list" where
  "persist cl predictions i updatedCount st calls =
     (if i < length predictions then
        (let batch = slice predictions i (i + batchSize);
             updates = map to_update batch;
             (error, st') = upsert cl updates st
         in case error of
              Some e \<Rightarrow> persist cl predictions (i + batchSize) updatedCount st'
                          (calls @ [Upsert updates False])
            | None \<Rightarrow> persist cl predictions (i + batchSize) (updatedCount + length batch) st'
                          (calls @ [Upsert updates True]))
      else (updatedCount, st, calls))"
  by pat_completeness auto
termination
  by (relation "measure (\<lambda>(cl, predictions, i, updatedCount, st, calls). length predictions - i)")
     (auto simp: batchSize_def)

text \<open>The handler from \<^verbatim>\<open>console.log(`Processing ...`)\<close> to the summary response.\<close>

definition run_predictions :: "'st client \<Rightarrow> student list \<Rightarrow> 'st \<Rightarrow> response \<times> 'st \<times> store_call list" where
  "run_predictions cl students st =
     (let predictions = map (\<lambda>student. (id' student, predictDropoutRisk student)) students;
          (updatedCount, st', calls) = persist cl predictions 0 0 st []
      in (\<lparr> status = 200, body = Summary updatedCount (length students) \<rparr>, st', calls))"

text \<open>The \<^verbatim>\<open>catch\<close> block: status 500 and \<^verbatim>\<open>error.message || 'Failed to process predictions'\<close>.\<close>

definition failure :: "string \<Rightarrow> response" where
  "failure m = \<lparr> status = 500, body = ErrorBody (if m = [] then ''Failed to process predictions'' else m) \<rparr>"

text \<open>\<^verbatim>\<open>data || []\<close>.\<close>

fun data_or_empty :: "'a list option \<Rightarrow> 'a list" where
  "data_or_empty None = []"
| "data_or_empty (Some d) = d"

definition serve :: "'st client \<Rightarrow> request \<Rightarrow> 'st \<Rightarrow> response \<times> 'st \<times> store_call list" where
  "serve cl req st =
     (if req_method req = ''OPTIONS'' then (\<lparr> status = 200, body = NoBody \<rparr>, st, [])
      else case json req of
        Inl m \<Rightarrow> (failure m, st, [])
      | Inr b \<Rightarrow>
          if processNewStudents b = Some True then
            (case select_risk_score_is_null cl st of
               (data, Some e) \<Rightarrow> (failure e, st, [SelectIsNull])
             | (data, None) \<Rightarrow>
                 (let (r, st', calls) = run_predictions cl (data_or_empty data) st
                  in (r, st', SelectIsNull # calls)))
          else
            (case studentIds b of
               Some (i # ids) \<Rightarrow>
                 (case select_id_in cl (i # ids) st of
                    (data, Some e) \<Rightarrow> (failure e, st, [SelectIn (i # ids)])
                  | (data, None) \<Rightarrow>
                      (let (r, st', calls) = run_predictions cl (data_or_empty data) st
                       in (r, st', SelectIn (i # ids) # calls)))
             | _ \<Rightarrow> (\<lparr> status = 400, body = ErrorBody ''No students specified for prediction'' \<rparr>, st, [])))"

text \<open>
  An in-memory record store, used to run the handler on concrete data: the table of
  students, each with its scoring columns (\<open>None\<close> while \<^verbatim>\<open>risk_score\<close> is null), and the
  identifiers whose presence in a batch makes its upsert fail. The queries are the ones of
  the handler: \<^verbatim>\<open>.is('risk_score', null)\<close> and \<^verbatim>\<open>.in('id', studentIds)\<close>.
\<close>

record mem_store =
  table :: "(student \<times> update option) list"
  failing :: "string list"

fun update_id :: "update \<Rightarrow> string" where
  "update_id (Update i s l f) = i"

definition mem_upsert_row :: "update list \<Rightarrow> student \<times> update option \<Rightarrow> student \<times> update option" where
  "mem_upsert_row us row =
     (case filter (\<lambda>u. update_id u = id' (fst row)) us of
        [] \<Rightarrow> row
      | u # _ \<Rightarrow> (fst row, Some u))"

definition mem_client :: "mem_store client" where
  "mem_client =
     \<lparr> select_risk_score_is_null = (\<lambda>m. (Some (map fst (filter (\<lambda>row. snd row = None) (table m))), None)),
       select_id_in = (\<lambda>ids m. (Some (map fst (filter (\<lambda>row. id' (fst row) \<in> set ids) (table m))), None)),
       upsert = (\<lambda>us m.
         if list_ex (\<lambda>u. update_id u \<in> set (failing m)) us then (Some ''upsert failed'', m)
         else (None, m \<lparr> table := map (mem_upsert_row us) (table m) \<rparr>)) \<rparr>"

text \<open>The partition of a list into consecutive batches of \<open>n\<close> elements, the last one
  possibly shorter.\<close>

function chunks :: "nat \<Rightarrow> 'a list \<Rightarrow> 'a list list" where
  "chunks n xs = (if n = 0 \<or> xs = [] then [] else take n xs # chunks n (drop n xs))"
  by pat_completeness auto
termination
  by (relation "measure (\<lambda>(n, xs). length xs)") auto

text \<open>The batches a log of store calls attempted, and those it persisted.\<close>

fun batches_of :: "store_call list \<Rightarrow> update list list" where
  "batches_of [] = []"
| "batches_of (Upsert us ok # cs) = us # batches_of cs"
| "batches_of (c # cs) = batches_of cs"

fun persisted_of :: "store_call list \<Rightarrow> update list list" where
  "persisted_of [] = []"
| "persisted_of (Upsert us True # cs) = us # persisted_of cs"
| "persisted_of (c # cs) = persisted_of cs"

text \<open>Writing a list of batches one after the other, each exactly once, whatever the
  outcome of the ones before: the store after the last one and the log.\<close>

fun write_all :: "'st client \<Rightarrow> 'st \<Rightarrow> update list list \<Rightarrow> 'st \<times> store_call list" where
  "write_all cl st [] = (st, [])"
| "write_all cl st (us # bs) =
     (let (error, st1) = upsert cl us st;
          (st2, cs) = write_all cl st1 bs
      in (st2, Upsert us (error = None) # cs))"


text \<open>The updates computed for a list of students, in order.\<close>

definition updates_of :: "student list \<Rightarrow> update list" where
  "updates_of students = map (\<lambda>student. to_update (id' student, predictDropoutRisk student)) students"

subsection \<open>Concrete requests and stores\<close>

text \<open>Fifty copies of the student with every calculator at its maximum, then the student
  with every calculator at its minimum: two batches.\<close>

definition class_of_51 :: "student list" where
  "class_of_51 = replicate 50 worst_student @ [best_student]"

text \<open>A store in which every batch holding the identifier \<open>worst\<close> fails.\<close>

definition store_failing_worst :: mem_store where
  "store_failing_worst = \<lparr> table = [], failing = [''worst''] \<rparr>"

text \<open>A store with one unscored student.\<close>

definition store_one :: mem_store where
  "store_one = \<lparr> table = [(best_student, None)], failing = [] \<rparr>"

text \<open>A store with three students, the second of them scored.\<close>

definition store_three :: mem_store where
  "store_three =
     \<lparr> table = [(best_student, None),
                (worst_student, Some (to_update (''worst'', predictDropoutRisk worst_student))),
                (scenario2, None)],
       failing = [] \<rparr>"

text \<open>\<^verbatim>\<open>{processNewStudents: true, studentIds: []}\<close>\<close>

definition request_flag_and_empty_list :: request where
  "request_flag_and_empty_list =
     \<lparr> req_method = ''POST'', json = Inr \<lparr> studentIds = Some [], processNewStudents = Some True \<rparr> \<rparr>"

text \<open>\<^verbatim>\<open>{processNewStudents: true, studentIds: ["worst"]}\<close>\<close>

definition request_flag_and_list :: request where
  "request_flag_and_list =
     \<lparr> req_method = ''POST'',
       json = Inr \<lparr> studentIds = Some [''worst''], processNewStudents = Some True \<rparr> \<rparr>"

text \<open>\<^verbatim>\<open>{}\<close>\<close>

definition request_empty :: request where
  "request_empty =
     \<lparr> req_method = ''POST'', json = Inr \<lparr> studentIds = None, processNewStudents = None \<rparr> \<rparr>"


section \<open>The upload parser \<^verbatim>\<open>parseCSVContent\<close> (src/pages/Upload.tsx)\<close>

text \<open>
  A JavaScript string is a sequence of UTF-16 code units, modelled as a list of natural
  numbers. \<open>str\<close> gives the code units of a literal of the source, whose characters are
  all ASCII.
\<close>

type_synonym jsstring = "nat list"

definition str :: "string \<Rightarrow> jsstring" where
  "str s = map of_char s"

text \<open>\<^verbatim>\<open>split\<close> with a one-character separator: it always returns at least one piece.\<close>

fun split :: "nat \<Rightarrow> jsstring \<Rightarrow> jsstring list" where
  "split sep [] = [[]]"
| "split sep (c # cs) =
     (if c = sep then [] # split sep cs
      else (case split sep cs of [] \<Rightarrow> [[c]] | w # ws \<Rightarrow> (c # w) # ws))"

text \<open>
  \<^verbatim>\<open>trim\<close> removes the white space and the line terminators of the language at both
  ends: TAB, LF, VT, FF, CR, space, the no-break space \<open>U+00A0\<close>, \<open>U+1680\<close>,
  \<open>U+2000\<close> to \<open>U+200A\<close>, \<open>U+2028\<close>, \<open>U+2029\<close>, \<open>U+202F\<close>, \<open>U+205F\<close>, \<open>U+3000\<close>
  and the byte order mark \<open>U+FEFF\<close>. Each is one code unit.
\<close>

definition is_space :: "nat \<Rightarrow> bool" where
  "is_space c =
     (c \<in> set [0x09, 0x0A, 0x0B, 0x0C, 0x0D, 0x20, 0xA0, 0x1680, 0x2028, 0x2029, 0x202F, 0x205F,
                0x3000, 0xFEFF]
      \<or> (0x2000 \<le> c \<and> c \<le> 0x200A))"

definition trim :: "jsstring \<Rightarrow> jsstring" where
  "trim s = rev (dropWhile is_space (rev (dropWhile is_space s)))"

text \<open>
  What the parser takes from the language and its engine, as parameters of the model:
  \<^verbatim>\<open>parseInt\<close> and \<^verbatim>\<open>parseFloat\<close>, which return a number (\<open>Finite\<close>, or an infinity)
  or \<open>NaN\<close>; \<^verbatim>\<open>toLowerCase\<close>, which follows the Unicode case mapping; and the string
  \<^verbatim>\<open>String(Object)\<close>, the source text of a native function, whose white space differs
  between engines.
\<close>

datatype jsnum = NaN | Finite rat | PlusInfinity | MinusInfinity

record builtins =
  parseInt :: "jsstring \<Rightarrow> jsnum"
  parseFloat :: "jsstring \<Rightarrow> jsnum"
  toLowerCase :: "jsstring \<Rightarrow> jsstring"
  objectSource :: string

text \<open>
  \<^verbatim>\<open>headerMap[header]\<close>, as a property name of the student object. The object literal
  has the 25 keys below. A lookup also finds the properties every object inherits; two of
  them have a lower-case name, \<^verbatim>\<open>constructor\<close> and \<^verbatim>\<open>__proto__\<close>. Their values are
  objects (the function \<^verbatim>\<open>Object\<close> and its prototype): they are truthy, they are none of
  the names the conversions test for, and as a property name they become
  \<^verbatim>\<open>String(Object)\<close> and \<^verbatim>\<open>[object Object]\<close>. The other inherited properties have
  an upper-case letter in their name, which no result of \<^verbatim>\<open>toLowerCase\<close> has.
\<close>

definition headerMap :: "builtins \<Rightarrow> jsstring \<Rightarrow> string option" where
  "headerMap bs header =
     (case map_of
         [(str ''name'', ''name''),
          (str ''email'', ''email''),
          (str ''student_id'', ''student_id''),
          (str ''studentid'', ''student_id''),
          (str ''department'', ''department''),
          (str ''semester'', ''semester''),
          (str ''gender'', ''gender''),
          (str ''attendance'', ''attendance_percentage''),
          (str ''attendance_percentage'', ''attendance_percentage''),
          (str ''cgpa'', ''cgpa''),
          (str ''sgpa'', ''sgpa''),
          (str ''fee_default'', ''fee_default''),
          (str ''feedefault'', ''fee_default''),
          (str ''disciplinary_actions'', ''disciplinary_actions''),
          (str ''disciplinaryactions'', ''disciplinary_actions''),
          (str ''scholarship'', ''scholarship''),
          (str ''extracurriculars'', ''extracurriculars''),
          (str ''family_income'', ''family_income''),
          (str ''familyincome'', ''family_income''),
          (str ''distance_from_home'', ''distance_from_home''),
          (str ''distancefromhome'', ''distance_from_home''),
          (str ''hostel_accommodation'', ''hostel_accommodation''),
          (str ''hostelaccommodation'', ''hostel_accommodation''),
          (str ''previous_education_gap'', ''previous_education_gap''),
          (str ''previouseducationgap'', ''previous_education_gap'')] header of
        Some mappedField \<Rightarrow> Some mappedField
      | None \<Rightarrow>
          if header = str ''constructor'' then Some (objectSource bs)
          else if header = str ''__proto__'' then Some ''[object Object]''
          else None)"

text \<open>The values of a parsed row.\<close>

datatype cell = Str jsstring | Number jsnum | Boolean bool

text \<open>\<^verbatim>\<open>n || 0\<close>.\<close>

definition or_zero :: "jsnum \<Rightarrow> jsnum" where
  "or_zero n = (if n = NaN \<or> n = Finite 0 then Finite 0 else n)"

text \<open>The type conversions of a mapped field.\<close>

definition convert :: "builtins \<Rightarrow> string \<Rightarrow> jsstring \<Rightarrow> cell" where
  "convert bs mappedField v =
     (if mappedField \<in> set [''semester'', ''disciplinary_actions'', ''extracurriculars'']
        then Number (or_zero (parseInt bs v))
      else if mappedField \<in> set [''attendance_percentage'', ''cgpa'', ''sgpa'', ''family_income'',
                                  ''distance_from_home'']
        then Number (or_zero (parseFloat bs v))
      else if mappedField \<in> set [''fee_default'', ''scholarship'', ''hostel_accommodation'',
                                  ''previous_education_gap'']
        then Boolean (toLowerCase bs v = str ''true'' \<or> toLowerCase bs v = str ''yes''
                      \<or> v = str ''1'')
      else if mappedField = ''gender''
        then (if toLowerCase bs v \<in> set [str ''male'', str ''female'', str ''other'']
              then Str (toLowerCase bs v)
              else Str (str ''other''))
      else Str v)"

text \<open>
  A student object: its properties in insertion order. \<^verbatim>\<open>headers.forEach\<close> walks the
  headers together with the values of the row (\<open>vs\<close> holds the values from the current
  index on; beyond the end of the row \<^verbatim>\<open>values[index]\<close> is \<^verbatim>\<open>undefined\<close>, which is
  falsy like the empty string).
\<close>

type_synonym obj = "(string \<times> cell) list"

fun fill :: "builtins \<Rightarrow> jsstring list \<Rightarrow> jsstring list \<Rightarrow> obj \<Rightarrow> obj" where
  "fill bs [] vs student = student"
| "fill bs (header # headers) vs student =
     fill bs headers (tl vs)
       (case headerMap bs header of
          None \<Rightarrow> student
        | Some mappedField \<Rightarrow>
            (case vs of
               [] \<Rightarrow> student
             | v # _ \<Rightarrow> if v = [] then student
                        else AList.update mappedField (convert bs mappedField v) student))"

fun truthy_cell :: "cell \<Rightarrow> bool" where
  "truthy_cell (Str s) = (s \<noteq> [])"
| "truthy_cell (Number n) = (n \<noteq> NaN \<and> n \<noteq> Finite 0)"
| "truthy_cell (Boolean b) = b"

text \<open>\<^verbatim>\<open>student.f\<close> as a condition.\<close>

definition has :: "obj \<Rightarrow> string \<Rightarrow> bool" where
  "has student f = (case map_of student f of None \<Rightarrow> False | Some c \<Rightarrow> truthy_cell c)"

definition values_of :: "jsstring \<Rightarrow> jsstring list" where
  "values_of line = map trim (split 0x2C line)"

text \<open>The loop over the data lines, with the array \<^verbatim>\<open>students\<close> built so far.\<close>

fun rows_loop :: "builtins \<Rightarrow> jsstring list \<Rightarrow> jsstring list \<Rightarrow> obj list \<Rightarrow> obj list" where
  "rows_loop bs headers [] students = students"
| "rows_loop bs headers (line # lines) students =
     (let values = values_of line in
      if length values < length headers then rows_loop bs headers lines students
      else
        (let student = fill bs headers values [] in
         if has student ''name'' \<and> has student ''email'' \<and> has student ''student_id''
            \<and> has student ''department''
         then rows_loop bs headers lines (students @ [student])
         else rows_loop bs headers lines students))"

definition lines_of :: "jsstring \<Rightarrow> jsstring list" where
  "lines_of content = filter (\<lambda>line. trim line \<noteq> []) (split 0x0A content)"

definition headers_of :: "builtins \<Rightarrow> jsstring \<Rightarrow> jsstring list" where
  "headers_of bs line = map (\<lambda>h. toLowerCase bs (trim h)) (split 0x2C line)"

definition parseCSVContent :: "builtins \<Rightarrow> jsstring \<Rightarrow> string + obj list" where
  "parseCSVContent bs content =
     (let lines = lines_of content in
      if length lines < 2 then Inl ''File must contain header row and at least one data row''
      else Inr (rows_loop bs (headers_of bs (hd lines)) (tl lines) []))"

text \<open>The four required fields, and what a row needs for one of them to be non-empty after
  the header mapping: a column whose header maps to the field and whose value in the row
  is not empty.\<close>

definition required :: "string list" where
  "required = [''name'', ''email'', ''student_id'', ''department'']"

definition nonempty_after_mapping ::
  "builtins \<Rightarrow> jsstring list \<Rightarrow> jsstring list \<Rightarrow> string \<Rightarrow> bool" where
  "nonempty_after_mapping bs headers values f =
     list_ex (\<lambda>(h, v). headerMap bs h = Some f \<and> v \<noteq> []) (zip headers values)"

definition excluded :: "builtins \<Rightarrow> jsstring list \<Rightarrow> jsstring \<Rightarrow> bool" where
  "excluded bs headers line =
     (length (values_of line) < length headers
      \<or> list_ex (\<lambda>f. \<not> nonempty_after_mapping bs headers (values_of line) f) required)"


subsection \<open>A concrete upload\<close>

text \<open>Stand-ins for the parameters on the example below, which is ASCII but for two
  no-break spaces: the value of a string of decimal digits and \<open>NaN\<close> for any other
  string, the lower case of the letters \<open>A\<close> to \<open>Z\<close>, and the source text one engine
  gives.\<close>

definition parse_digits :: "jsstring \<Rightarrow> jsnum" where
  "parse_digits s =
     (if s \<noteq> [] \<and> list_all (\<lambda>c. 48 \<le> c \<and> c \<le> 57) s
      then Finite (of_nat (foldl (\<lambda>n c. 10 * n + (c - 48)) 0 s))
      else NaN)"

definition lower_ascii :: "jsstring \<Rightarrow> jsstring" where
  "lower_ascii s = map (\<lambda>c. if 65 \<le> c \<and> c \<le> 90 then c + 32 else c) s"

definition example_builtins :: builtins where
  "example_builtins =
     \<lparr> parseInt = parse_digits, parseFloat = parse_digits, toLowerCase = lower_ascii,
       objectSource = ''function Object() { [native code] }'' \<rparr>"

text \<open>A header line ending in a carriage return, a complete row, a row with an empty
  name, a row with three fields, an empty line, a row whose name is a no-break space, a
  line that holds only a no-break space, and a complete row whose semester is not a
  number.\<close>

definition example_upload :: jsstring where
  "example_upload =
     str ''Name, Email,StudentID,Department,Semester'' @ [0x0D, 0x0A]
     @ str ''Ada,ada@x.org,S1,Math,5'' @ [0x0A]
     @ str '',bob@x.org,S2,Physics,3'' @ [0x0A]
     @ str ''Cy,cy@x.org,S3'' @ [0x0A]
     @ [0x0A]
     @ [0xA0] @ str '',eve@x.org,S5,Law,2'' @ [0x0A]
     @ [0xA0, 0x0A]
     @ str ''Dee,dee@x.org,S4,Art,x'' @ [0x0A]"

text \<open>An upload whose only data line holds a no-break space.\<close>

definition blank_upload :: jsstring where
  "blank_upload = str ''name,email,student_id,department'' @ [0x0A, 0xA0, 0x0A]"


section \<open>Rounding to binary64 is monotone\<close>

lemma expo_bounds:
  assumes "0 < x"
  shows "2 powi (expo x) \<le> x" and "x < 2 powi (expo x + 1)"
proof -
  have "2 powi (expo x) \<le> x \<and> x < 2 powi (expo x + 1)"
  proof (cases "1 \<le> x")
    case True
    define n where "n = \<lfloor>x\<rfloor>"
    have n1: "1 \<le> n" using True by (simp add: n_def)
    then have npos: "0 < n" by simp
    from bitlen_bounds [OF npos] have b: "2 ^ nat (bitlen n - 1) \<le> n" "n < 2 ^ nat (bitlen n)" by auto
    have bl: "1 \<le> bitlen n" using npos bitlen_eq_zero_iff [of n] bitlen_nonneg [of n] by linarith
    have e: "expo x = bitlen n - 1" using True by (simp add: expo_def n_def)
    have "(2::rat) powi (bitlen n - 1) = 2 ^ nat (bitlen n - 1)"
      using bl by (simp add: power_int_def)
    also have "\<dots> = of_int (2 ^ nat (bitlen n - 1))" by simp
    also have "\<dots> \<le> of_int n" using b(1) by (simp only: of_int_le_iff)
    also have "\<dots> \<le> x" by (simp add: n_def)
    finally have lo: "2 powi (expo x) \<le> x" by (simp add: e)
    have "n + 1 \<le> 2 ^ nat (bitlen n)" using b(2) by simp
    then have "(of_int (n + 1) :: rat) \<le> of_int (2 ^ nat (bitlen n))" by (simp only: of_int_le_iff)
    moreover have "x < of_int (n + 1)" unfolding n_def by linarith
    ultimately have "x < of_int (2 ^ nat (bitlen n))" by linarith
    also have "\<dots> = 2 powi (bitlen n)" using bl by (simp add: power_int_def)
    finally have "x < 2 powi (expo x + 1)" by (simp add: e)
    with lo show ?thesis by simp
  next
    case False
    then have x1: "x < 1" by simp
    define y where "y = 1 / x"
    define c where "c = \<lceil>y\<rceil>"
    have y1: "1 < y" using assms x1 by (simp add: y_def)
    have c2: "2 \<le> c" unfolding c_def using y1 by linarith
    then have cpos: "0 < c - 1" by simp
    from bitlen_bounds [OF cpos] have b: "2 ^ nat (bitlen (c - 1) - 1) \<le> c - 1" "c - 1 < 2 ^ nat (bitlen (c - 1))"
      by auto
    define k where "k = bitlen (c - 1)"
    have bl: "1 \<le> k" unfolding k_def
      using cpos bitlen_eq_zero_iff [of "c - 1"] bitlen_nonneg [of "c - 1"] by linarith
    have e: "expo x = - k" using False by (simp add: expo_def c_def y_def k_def)
    have ylo: "of_int (c - 1) < y" unfolding c_def by linarith
    have yhi: "y \<le> of_int c" unfolding c_def by linarith
    have "c \<le> 2 ^ nat k" using b(2) by (simp add: k_def)
    then have "(of_int c :: rat) \<le> of_int (2 ^ nat k)" by (simp only: of_int_le_iff)
    then have "(of_int c :: rat) \<le> 2 ^ nat k" by (simp only: of_int_power of_int_numeral)
    with yhi have yk: "y \<le> 2 ^ nat k" by linarith
    have "(of_int (2 ^ nat (k - 1)) :: rat) \<le> of_int (c - 1)"
      using b(1) unfolding k_def by (simp only: of_int_le_iff)
    then have "(2::rat) ^ nat (k - 1) \<le> of_int (c - 1)" by (simp only: of_int_power of_int_numeral)
    with ylo have yk1: "2 ^ nat (k - 1) < y" by linarith
    have xy: "x = 1 / y" using assms by (simp add: y_def)
    have ypos: "0 < y" using y1 by simp
    have "2 powi (- k) = 1 / (2::rat) ^ nat k"
      using bl by (simp add: power_int_def field_simps)
    also have "\<dots> \<le> 1 / y" using yk ypos by (simp add: frac_le)
    finally have lo: "2 powi (expo x) \<le> x" unfolding e using xy by simp
    have "1 / y < 1 / (2::rat) ^ nat (k - 1)"
      using yk1 by (simp add: frac_less2)
    also have "\<dots> = 2 powi (- k + 1)"
      using bl by (cases "k = 1") (simp_all add: power_int_def field_simps)
    finally have "x < 2 powi (expo x + 1)" unfolding e using xy by simp
    with lo show ?thesis by simp
  qed
  then show "2 powi (expo x) \<le> x" and "x < 2 powi (expo x + 1)" by simp_all
qed

lemma round_half_even_mono: "x \<le> y \<Longrightarrow> round_half_even x \<le> round_half_even y"
proof -
  assume xy: "x \<le> y"
  have fx: "\<lfloor>x\<rfloor> \<le> \<lfloor>y\<rfloor>" using xy by (rule floor_mono)
  show ?thesis
  proof (cases "\<lfloor>x\<rfloor> = \<lfloor>y\<rfloor>")
    case True
    then show ?thesis using xy by (auto simp: round_half_even_def Let_def)
  next
    case False
    then have "\<lfloor>x\<rfloor> + 1 \<le> \<lfloor>y\<rfloor>" using fx by simp
    moreover have "round_half_even x \<le> \<lfloor>x\<rfloor> + 1" by (simp add: round_half_even_def Let_def)
    moreover have "\<lfloor>y\<rfloor> \<le> round_half_even y" by (simp add: round_half_even_def Let_def)
    ultimately show ?thesis by linarith
  qed
qed

lemma round_half_even_of_int [simp]: "round_half_even (of_int n) = n"
  by (simp add: round_half_even_def)


lemma ulp_pos: "0 < ulp x"
  by (simp add: ulp_def)

lemma fl_of_pos: "0 < x \<Longrightarrow> fl x = of_int (round_half_even (x / ulp x)) * ulp x"
  by (simp add: fl_def)

lemma expo_mono:
  assumes "0 < x" and "x \<le> y"
  shows "expo x \<le> expo y"
proof -
  have ypos: "0 < y" using assms by simp
  have "(2::rat) powi (expo x) \<le> x" using expo_bounds(1) [OF assms(1)] .
  also have "x \<le> y" by fact
  also have "y < 2 powi (expo y + 1)" using expo_bounds(2) [OF ypos] .
  finally have "(2::rat) powi (expo x) < 2 powi (expo y + 1)" .
  then have "\<not> expo y + 1 \<le> expo x"
    using power_int_increasing [of "expo y + 1" "expo x" "2::rat"] by auto
  then show ?thesis by simp
qed

lemma pow2_53: "(2::rat) powi (e + 1) = 2 ^ 53 * 2 powi (e - 52)"
proof -
  have "(2::rat) powi ((e - 52) + 53) = 2 powi (e - 52) * 2 powi 53"
    by (rule power_int_add) simp
  moreover have "e - 52 + 53 = e + 1" by simp
  ultimately show ?thesis by (simp only: mult.commute power_int_numeral)
qed

lemma pow2_52: "(2::rat) powi e = 2 ^ 52 * 2 powi (e - 52)"
proof -
  have "(2::rat) powi ((e - 52) + 52) = 2 powi (e - 52) * 2 powi 52"
    by (rule power_int_add) simp
  moreover have "e - 52 + 52 = e" by simp
  ultimately show ?thesis by (simp only: mult.commute power_int_numeral)
qed

lemma fl_upper:
  assumes "0 < x"
  shows "fl x \<le> 2 powi (max (expo x) (- 1022) + 1)"
proof -
  define e where "e = max (expo x) (- 1022)"
  have u: "ulp x = 2 powi (e - 52)" by (simp add: ulp_def e_def)
  have split: "(2::rat) powi (e + 1) = 2 ^ 53 * 2 powi (e - 52)"
    by (rule pow2_53)
  have "x < 2 powi (expo x + 1)" using expo_bounds(2) [OF assms] .
  also have "\<dots> \<le> 2 powi (e + 1)"
    by (rule power_int_increasing) (simp_all add: e_def)
  finally have "x \<le> 2 ^ 53 * ulp x" by (simp only: u split)
  then have "x / ulp x \<le> 2 ^ 53"
    using ulp_pos [of x] by (simp only: pos_divide_le_eq)
  then have "x / ulp x \<le> of_int (2 ^ 53)" by simp
  then have "round_half_even (x / ulp x) \<le> round_half_even (of_int (2 ^ 53))"
    by (rule round_half_even_mono)
  then have "round_half_even (x / ulp x) \<le> 2 ^ 53" by (simp only: round_half_even_of_int)
  then have "(of_int (round_half_even (x / ulp x)) :: rat) \<le> of_int (2 ^ 53)"
    by (simp only: of_int_le_iff)
  then have "of_int (round_half_even (x / ulp x)) * ulp x \<le> of_int (2 ^ 53) * ulp x"
    using ulp_pos [of x] by (simp only: mult_le_cancel_right_pos)
  also have "\<dots> = 2 powi (e + 1)" by (simp only: u split of_int_power of_int_numeral)
  finally show ?thesis by (simp only: fl_of_pos [OF assms] e_def)
qed

lemma fl_lower:
  assumes "0 < x" and "- 1022 \<le> expo x"
  shows "2 powi (expo x) \<le> fl x"
proof -
  have u: "ulp x = 2 powi (expo x - 52)" using assms(2) by (simp add: ulp_def max_def)
  have split: "(2::rat) powi (expo x) = 2 ^ 52 * 2 powi (expo x - 52)"
    by (rule pow2_52)
  have "2 powi (expo x) \<le> x" using expo_bounds(1) [OF assms(1)] .
  then have "2 ^ 52 * ulp x \<le> x" by (simp only: u split)
  then have "2 ^ 52 \<le> x / ulp x"
    using ulp_pos [of x] by (simp only: pos_le_divide_eq)
  then have "of_int (2 ^ 52) \<le> x / ulp x" by simp
  then have "round_half_even (of_int (2 ^ 52)) \<le> round_half_even (x / ulp x)"
    by (rule round_half_even_mono)
  then have "2 ^ 52 \<le> round_half_even (x / ulp x)" by (simp only: round_half_even_of_int)
  then have "(of_int (2 ^ 52) :: rat) \<le> of_int (round_half_even (x / ulp x))"
    by (simp only: of_int_le_iff)
  then have "of_int (2 ^ 52) * ulp x \<le> of_int (round_half_even (x / ulp x)) * ulp x"
    using ulp_pos [of x] by (simp only: mult_le_cancel_right_pos)
  moreover have "of_int (2 ^ 52) * ulp x = 2 powi (expo x)"
    by (simp only: u split of_int_power of_int_numeral)
  ultimately show ?thesis by (simp only: fl_of_pos [OF assms(1)])
qed

lemma fl_nonneg: "0 \<le> x \<Longrightarrow> 0 \<le> fl x"
proof (cases "x = 0")
  case True
  then show ?thesis by (simp add: fl_def)
next
  case False
  assume "0 \<le> x"
  with False have xpos: "0 < x" by simp
  then have "0 \<le> x / ulp x" using ulp_pos [of x] by simp
  then have "round_half_even (of_int 0) \<le> round_half_even (x / ulp x)"
    by (intro round_half_even_mono) simp
  then have "0 \<le> round_half_even (x / ulp x)" by (simp only: round_half_even_of_int)
  then show ?thesis using ulp_pos [of x] by (simp add: fl_of_pos [OF xpos])
qed

lemma fl_mono:
  assumes "0 \<le> x" and "x \<le> y"
  shows "fl x \<le> fl y"
proof (cases "x = 0")
  case True
  then show ?thesis using fl_nonneg [of y] assms by (simp add: fl_def)
next
  case False
  with assms have xpos: "0 < x" and ypos: "0 < y" by simp_all
  have ee: "expo x \<le> expo y" using expo_mono [OF xpos assms(2)] .
  show ?thesis
  proof (cases "max (expo x) (- 1022) = max (expo y) (- 1022)")
    case True
    then have u: "ulp x = ulp y" by (simp add: ulp_def)
    have "x / ulp y \<le> y / ulp y" using assms(2) ulp_pos [of y] by (simp add: divide_right_mono)
    then have "round_half_even (x / ulp y) \<le> round_half_even (y / ulp y)"
      by (rule round_half_even_mono)
    then have "(of_int (round_half_even (x / ulp y)) :: rat) \<le> of_int (round_half_even (y / ulp y))"
      by (simp only: of_int_le_iff)
    then have "of_int (round_half_even (x / ulp y)) * ulp y \<le> of_int (round_half_even (y / ulp y)) * ulp y"
      using ulp_pos [of y] by (simp only: mult_le_cancel_right_pos)
    then show ?thesis by (simp add: fl_of_pos [OF xpos] fl_of_pos [OF ypos] u)
  next
    case False
    with ee have lt: "max (expo x) (- 1022) + 1 \<le> expo y" and big: "- 1022 \<le> expo y"
      by (simp_all add: max_def split: if_splits)
    have "fl x \<le> 2 powi (max (expo x) (- 1022) + 1)" by (rule fl_upper [OF xpos])
    also have "\<dots> \<le> 2 powi (expo y)" by (rule power_int_increasing [OF lt]) simp
    also have "\<dots> \<le> fl y" by (rule fl_lower [OF ypos big])
    finally show ?thesis .
  qed
qed

section \<open>Evaluation and bounds of the risk functions\<close>

lemma floor_rat_numeral: "\<lfloor>numeral a / numeral b :: rat\<rfloor> = numeral a div numeral b"
  by (metis floor_divide_of_int_eq of_int_numeral)

lemma ceiling_rat_numeral: "\<lceil>numeral a / numeral b :: rat\<rceil> = - (- numeral a div numeral b)"
  by (metis ceiling_def floor_divide_of_int_eq of_int_numeral of_int_minus minus_divide_left)

lemma floor_rat_one_div: "\<lfloor>1 / numeral b :: rat\<rfloor> = 1 div numeral b"
  by (metis floor_divide_of_int_eq of_int_1 of_int_numeral)

lemmas num_eval = fl_def ulp_def expo_def round_half_even_def Let_def compute_bitlen
  floor_rat_numeral ceiling_rat_numeral floor_rat_one_div lit_def jsadd_def jsmul_def jsdiv_def Math_round_def Math_min_def

lemma jsadd_mono: "0 \<le> a \<Longrightarrow> 0 \<le> b \<Longrightarrow> a \<le> a' \<Longrightarrow> b \<le> b' \<Longrightarrow> jsadd a b \<le> jsadd a' b'"
  unfolding jsadd_def by (rule fl_mono) simp_all

lemma jsadd_nonneg: "0 \<le> a \<Longrightarrow> 0 \<le> b \<Longrightarrow> 0 \<le> jsadd a b"
  unfolding jsadd_def by (rule fl_nonneg) simp

lemma jsmul_mono: "0 \<le> a \<Longrightarrow> a \<le> a' \<Longrightarrow> 0 \<le> w \<Longrightarrow> jsmul a w \<le> jsmul a' w"
  unfolding jsmul_def by (rule fl_mono) (simp_all add: mult_right_mono)

lemma jsmul_nonneg: "0 \<le> a \<Longrightarrow> 0 \<le> w \<Longrightarrow> 0 \<le> jsmul a w"
  unfolding jsmul_def by (rule fl_nonneg) simp

lemma lit_nonneg: "0 \<le> d \<Longrightarrow> 0 \<le> lit d"
  unfolding lit_def by (rule fl_nonneg)

lemma weighted_mono:
  assumes "0 \<le> a" "a \<le> a'" "0 \<le> c" "c \<le> c'" "0 \<le> f" "f \<le> f'"
    and "0 \<le> b" "b \<le> b'" "0 \<le> e" "e \<le> e'" "0 \<le> d" "d \<le> d'"
  shows "weighted a c f b e d \<le> weighted a' c' f' b' e' d'"
  unfolding weighted_def using assms
  by (intro jsadd_mono jsmul_mono jsadd_nonneg jsmul_nonneg lit_nonneg) simp_all

lemma calculateAttendanceRisk_range:
  "lit (1 / 10) \<le> calculateAttendanceRisk a \<and> calculateAttendanceRisk a \<le> lit (9 / 10)"
  by (simp add: calculateAttendanceRisk_def num_eval)

lemma calculateAcademicRisk_range:
  "lit (1 / 10) \<le> calculateAcademicRisk c s \<and> calculateAcademicRisk c s \<le> lit (8 / 10)"
proof -
  have "calculateAcademicRisk c s \<in> {lit (1 / 10), lit (2 / 10), lit (4 / 10), lit (6 / 10), lit (8 / 10)}"
    unfolding calculateAcademicRisk_def Let_def by simp
  moreover have "\<forall>r \<in> {lit (1 / 10), lit (2 / 10), lit (4 / 10), lit (6 / 10), lit (8 / 10)}.
      lit (1 / 10) \<le> r \<and> r \<le> lit (8 / 10)"
    by (simp add: num_eval)
  ultimately show ?thesis by blast
qed

lemma calculateBehavioralRisk_range:
  "lit (1 / 10) \<le> calculateBehavioralRisk n \<and> calculateBehavioralRisk n \<le> lit (8 / 10)"
  by (simp add: calculateBehavioralRisk_def num_eval)

lemma calculateEngagementRisk_range:
  "lit (1 / 10) \<le> calculateEngagementRisk n \<and> calculateEngagementRisk n \<le> lit (5 / 10)"
  by (simp add: calculateEngagementRisk_def num_eval)

lemma calculateFinancialRisk_range:
  "0 \<le> calculateFinancialRisk fd sc inc \<and> calculateFinancialRisk fd sc inc \<le> 1"
  unfolding calculateFinancialRisk_def Let_def
  apply (cases fd; cases sc; cases "inc \<noteq> Undefined"; cases "js_lt inc 200000"; cases "js_lt inc 500000";
      simp only: if_True if_False not_True_eq_False not_False_eq_True)
  apply (simp_all add: num_eval)
  done

lemma calculateDemographicRisk_range:
  "0 \<le> calculateDemographicRisk st \<and> calculateDemographicRisk st \<le> demographic_max"
  unfolding calculateDemographicRisk_def Let_def demographic_max_def
  apply (cases "truthy (distance_from_home st) \<and> js_gt (distance_from_home st) 500";
      cases "hostel_accommodation st"; cases "previous_education_gap st"; cases "semester st > 6";
      simp only: if_True if_False)
  apply (simp_all add: num_eval)
  done

lemma lit_pos_vals: "0 \<le> lit (1 / 10)"
  by (rule lit_nonneg) simp

lemma weighted_min: "weighted (lit (1 / 10)) (lit (1 / 10)) 0 (lit (1 / 10)) (lit (1 / 10)) 0 = lit (7 / 100)"
  by (simp add: weighted_def num_eval)

lemma weighted_max:
  "weighted (lit (9 / 10)) (lit (8 / 10)) 1 (lit (8 / 10)) (lit (5 / 10)) demographic_max = lit (81 / 100)"
  by (simp add: weighted_def demographic_max_def num_eval)

lemma riskScore_bounds: "lit (7 / 100) \<le> riskScore st \<and> riskScore st \<le> lit (81 / 100)"
proof -
  let ?a = "calculateAttendanceRisk (attendance_percentage st)"
  let ?c = "calculateAcademicRisk (cgpa st) (sgpa st)"
  let ?f = "calculateFinancialRisk (fee_default st) (scholarship st) (family_income st)"
  let ?b = "calculateBehavioralRisk (disciplinary_actions st)"
  let ?e = "calculateEngagementRisk (extracurriculars st)"
  let ?d = "calculateDemographicRisk st"
  note l = lit_pos_vals
  note a = calculateAttendanceRisk_range [of "attendance_percentage st"]
  note c = calculateAcademicRisk_range [of "cgpa st" "sgpa st"]
  note f = calculateFinancialRisk_range [of "fee_default st" "scholarship st" "family_income st"]
  note b = calculateBehavioralRisk_range [of "disciplinary_actions st"]
  note e = calculateEngagementRisk_range [of "extracurriculars st"]
  note d = calculateDemographicRisk_range [of st]
  have "weighted (lit (1 / 10)) (lit (1 / 10)) 0 (lit (1 / 10)) (lit (1 / 10)) 0 \<le> weighted ?a ?c ?f ?b ?e ?d"
    using l a c f b e d by (intro weighted_mono) simp_all
  moreover have "weighted ?a ?c ?f ?b ?e ?d
      \<le> weighted (lit (9 / 10)) (lit (8 / 10)) 1 (lit (8 / 10)) (lit (5 / 10)) demographic_max"
    using l a c f b e d by (intro weighted_mono) simp_all
  ultimately show ?thesis
    by (simp only: weighted_min weighted_max riskScore_def)
qed

lemma Math_round_mono: "x \<le> y \<Longrightarrow> Math_round x \<le> Math_round y"
  unfolding Math_round_def by (simp add: floor_mono)

lemma Math_round_nonneg: "0 \<le> x \<Longrightarrow> 0 \<le> Math_round x"
  unfolding Math_round_def by simp

lemma round2_mono:
  assumes "0 \<le> x" and "x \<le> y"
  shows "round2 x \<le> round2 y"
proof -
  have "0 \<le> jsmul x 100" using assms(1) by (intro jsmul_nonneg) simp_all
  moreover have "jsmul x 100 \<le> jsmul y 100" using assms by (intro jsmul_mono) simp_all
  ultimately have "0 \<le> Math_round (jsmul x 100)" and "Math_round (jsmul x 100) \<le> Math_round (jsmul y 100)"
    by (simp_all add: Math_round_mono Math_round_nonneg)
  then show ?thesis unfolding round2_def jsdiv_def
    by (intro fl_mono) (simp_all add: divide_right_mono)
qed

lemma round2_vals:
  "round2 (lit (7 / 100)) = lit (7 / 100)" "round2 (lit (81 / 100)) = lit (81 / 100)"
  "round2 (lit (4 / 10)) = lit (40 / 100)" "round2 (lit (7 / 10)) = lit (70 / 100)"
  by (simp_all add: round2_def num_eval)

lemma risk_score_bounds:
  "lit (7 / 100) \<le> risk_score (predictDropoutRisk st) \<and> risk_score (predictDropoutRisk st) \<le> lit (81 / 100)"
proof -
  have "0 \<le> lit (7 / 100)" by (rule lit_nonneg) simp
  with riskScore_bounds [of st]
  have "round2 (lit (7 / 100)) \<le> round2 (riskScore st)" and "round2 (riskScore st) \<le> round2 (lit (81 / 100))"
    by (auto intro!: round2_mono)
  then show ?thesis by (simp add: predictDropoutRisk_def round2_vals)
qed

lemmas calc_defs = calculateAttendanceRisk_def calculateAcademicRisk_def calculateFinancialRisk_def
  calculateBehavioralRisk_def calculateEngagementRisk_def calculateDemographicRisk_def
  js_lt_def js_gt_def

lemma best_student_risks:
  "calculateAttendanceRisk (attendance_percentage best_student) = lit (1 / 10)"
  "calculateAcademicRisk (cgpa best_student) (sgpa best_student) = lit (1 / 10)"
  "calculateFinancialRisk (fee_default best_student) (scholarship best_student) (family_income best_student) = 0"
  "calculateBehavioralRisk (disciplinary_actions best_student) = lit (1 / 10)"
  "calculateEngagementRisk (extracurriculars best_student) = lit (1 / 10)"
  "calculateDemographicRisk best_student = 0"
  unfolding calc_defs Let_def best_student_def
  by (simp_all add: num_eval)

lemma worst_student_risks:
  "calculateAttendanceRisk (attendance_percentage worst_student) = lit (9 / 10)"
  "calculateAcademicRisk (cgpa worst_student) (sgpa worst_student) = lit (8 / 10)"
  "calculateFinancialRisk (fee_default worst_student) (scholarship worst_student) (family_income worst_student) = 1"
  "calculateBehavioralRisk (disciplinary_actions worst_student) = lit (8 / 10)"
  "calculateEngagementRisk (extracurriculars worst_student) = lit (5 / 10)"
  "calculateDemographicRisk worst_student = demographic_max"
  unfolding calc_defs Let_def worst_student_def demographic_max_def
  by (simp_all add: num_eval)

lemma best_student_score: "riskScore best_student = lit (7 / 100)"
  unfolding riskScore_def best_student_risks by (rule weighted_min)

lemma worst_student_score: "riskScore worst_student = lit (81 / 100)"
  unfolding riskScore_def worst_student_risks by (rule weighted_max)

lemma level_cut_vals: "lit (7 / 100) < lit (4 / 10)" "lit (4 / 10) < lit (7 / 10)" "lit (7 / 10) \<le> lit (81 / 100)"
  "0 < lit (7 / 100)" "lit (81 / 100) < 1"
  by (simp_all add: num_eval)

lemma worst_student_level: "risk_level (predictDropoutRisk worst_student) = High"
  unfolding predictDropoutRisk_def Let_def worst_student_score using level_cut_vals by simp



lemma round2_tenths:
  "round2 (lit (1 / 10)) = lit (1 / 10)" "round2 (lit (2 / 10)) = lit (2 / 10)"
  "round2 (lit (3 / 10)) = lit (3 / 10)" "round2 (lit (4 / 10)) = lit (4 / 10)"
  "round2 (lit (5 / 10)) = lit (5 / 10)" "round2 (lit (6 / 10)) = lit (6 / 10)"
  "round2 (lit (7 / 10)) = lit (7 / 10)" "round2 (lit (8 / 10)) = lit (8 / 10)"
  "round2 (lit (9 / 10)) = lit (9 / 10)"
  unfolding round2_def by (simp_all add: num_eval)



lemma edge_low_risks:
  "calculateAttendanceRisk (attendance_percentage edge_low_student) = lit (1 / 10)"
  "calculateAcademicRisk (cgpa edge_low_student) (sgpa edge_low_student) = lit (6 / 10)"
  "calculateFinancialRisk (fee_default edge_low_student) (scholarship edge_low_student)
     (family_income edge_low_student) = lit (8 / 10)"
  "calculateBehavioralRisk (disciplinary_actions edge_low_student) = lit (8 / 10)"
  "calculateEngagementRisk (extracurriculars edge_low_student) = lit (1 / 10)"
  "calculateDemographicRisk edge_low_student = 0"
  unfolding calc_defs Let_def edge_low_student_def
  by (simp_all add: num_eval)

lemma edge_low_score: "riskScore edge_low_student = lit (395 / 1000)"
  unfolding riskScore_def edge_low_risks weighted_def by (simp add: num_eval)

lemma edge_low_result:
  "risk_level (predictDropoutRisk edge_low_student) = Low"
  "risk_score (predictDropoutRisk edge_low_student) = lit (40 / 100)"
proof -
  have "lit (395 / 1000) < lit (4 / 10)" "lit (4 / 10) < lit (7 / 10)"
    by (simp_all add: num_eval)
  then show "risk_level (predictDropoutRisk edge_low_student) = Low"
    unfolding predictDropoutRisk_def Let_def edge_low_score by simp
  have "round2 (lit (395 / 1000)) = lit (40 / 100)"
    unfolding round2_def by (simp add: num_eval)
  then show "risk_score (predictDropoutRisk edge_low_student) = lit (40 / 100)"
    unfolding predictDropoutRisk_def Let_def edge_low_score by simp
qed

lemma edge_medium_risks:
  "calculateAttendanceRisk (attendance_percentage edge_medium_student) = lit (9 / 10)"
  "calculateAcademicRisk (cgpa edge_medium_student) (sgpa edge_medium_student) = lit (6 / 10)"
  "calculateFinancialRisk (fee_default edge_medium_student) (scholarship edge_medium_student)
     (family_income edge_medium_student) = lit (8 / 10)"
  "calculateBehavioralRisk (disciplinary_actions edge_medium_student) = lit (8 / 10)"
  "calculateEngagementRisk (extracurriculars edge_medium_student) = lit (5 / 10)"
  "calculateDemographicRisk edge_medium_student = lit (4 / 10)"
  unfolding calc_defs Let_def edge_medium_student_def
  by (simp_all add: num_eval)

lemma edge_medium_score: "riskScore edge_medium_student = 3130001741022495 / 4503599627370496"
  unfolding riskScore_def edge_medium_risks weighted_def by (simp add: num_eval)

lemma edge_medium_result:
  "risk_level (predictDropoutRisk edge_medium_student) = Medium"
  "risk_score (predictDropoutRisk edge_medium_student) = lit (70 / 100)"
proof -
  have "lit (4 / 10) \<le> (3130001741022495 / 4503599627370496 :: rat)"
    "(3130001741022495 / 4503599627370496 :: rat) < lit (7 / 10)"
    by (simp_all add: num_eval)
  then show "risk_level (predictDropoutRisk edge_medium_student) = Medium"
    unfolding predictDropoutRisk_def Let_def edge_medium_score by simp
  have "round2 (3130001741022495 / 4503599627370496) = lit (70 / 100)"
    unfolding round2_def by (simp add: num_eval)
  then show "risk_score (predictDropoutRisk edge_medium_student) = lit (70 / 100)"
    unfolding predictDropoutRisk_def Let_def edge_medium_score by simp
qed


lemma tenth_order:
  "lit (1 / 10) \<le> lit (3 / 10)" "lit (3 / 10) \<le> lit (5 / 10)" "lit (5 / 10) \<le> lit (7 / 10)"
  "lit (7 / 10) \<le> lit (9 / 10)"
  by (simp_all add: num_eval)

section \<open>Claims about the risk functions\<close>

text \<open>
  C7. The attendance risk is the step function of the specification: \<open>0.1\<close> from 90
  on, \<open>0.3\<close> from 80, \<open>0.5\<close> from 70, \<open>0.7\<close> from 60 and \<open>0.9\<close> below. Its value
  is one of these five numbers, and it does not increase when the attendance increases.
  This holds for every finite number, so for every attendance between 0 and 100.
\<close>

theorem C7_attendance_step_function:
  "calculateAttendanceRisk a =
     (if 90 \<le> a then lit (1 / 10) else if 80 \<le> a then lit (3 / 10) else if 70 \<le> a then lit (5 / 10)
      else if 60 \<le> a then lit (7 / 10) else lit (9 / 10))
   \<and> calculateAttendanceRisk a \<in> {lit (1 / 10), lit (3 / 10), lit (5 / 10), lit (7 / 10), lit (9 / 10)}
   \<and> (a1 \<le> a2 \<longrightarrow> calculateAttendanceRisk a2 \<le> calculateAttendanceRisk a1)"
proof (intro conjI impI)
  show "calculateAttendanceRisk a =
     (if 90 \<le> a then lit (1 / 10) else if 80 \<le> a then lit (3 / 10) else if 70 \<le> a then lit (5 / 10)
      else if 60 \<le> a then lit (7 / 10) else lit (9 / 10))"
    by (simp add: calculateAttendanceRisk_def)
  show "calculateAttendanceRisk a \<in> {lit (1 / 10), lit (3 / 10), lit (5 / 10), lit (7 / 10), lit (9 / 10)}"
    by (simp add: calculateAttendanceRisk_def)
  assume "a1 \<le> a2"
  then show "calculateAttendanceRisk a2 \<le> calculateAttendanceRisk a1"
    using tenth_order unfolding calculateAttendanceRisk_def
    by (auto split: if_splits)
qed

text \<open>An instance of C7 at the attendances 65 and 85.\<close>

theorem C7_witness:
  "(65::rat) \<le> 85 \<and> calculateAttendanceRisk 65 = lit (7 / 10) \<and> calculateAttendanceRisk 85 = lit (3 / 10)
   \<and> calculateAttendanceRisk 85 \<le> calculateAttendanceRisk 65"
  using C7_attendance_step_function [of 65 65 85] C7_attendance_step_function [of 85 65 85]
  by simp

text \<open>
  C9. The unrounded weighted score lies between \<open>0.07\<close> and \<open>0.81\<close> (the numbers these
  literals denote). The lower bound is the score of a student with every calculator at its
  minimum, the upper bound that of a student with every calculator at its maximum. So the
  returned score lies between the same bounds and is never 0 or 1, the level \<open>High\<close>
  occurs, and no score exceeds \<open>0.81\<close>.
\<close>

theorem C9_score_between_007_and_081:
  "lit (7 / 100) \<le> riskScore st \<and> riskScore st \<le> lit (81 / 100)
   \<and> riskScore best_student = lit (7 / 100) \<and> riskScore worst_student = lit (81 / 100)
   \<and> lit (7 / 100) \<le> risk_score (predictDropoutRisk st)
   \<and> risk_score (predictDropoutRisk st) \<le> lit (81 / 100)
   \<and> risk_score (predictDropoutRisk st) \<noteq> 0 \<and> risk_score (predictDropoutRisk st) \<noteq> 1
   \<and> risk_level (predictDropoutRisk worst_student) = High"
  using riskScore_bounds [of st] risk_score_bounds [of st] best_student_score worst_student_score
    worst_student_level level_cut_vals(4,5)
  by auto

lemma risk_level_by_score:
  "(risk_level (predictDropoutRisk st) = High \<longleftrightarrow> lit (7 / 10) \<le> riskScore st)
   \<and> (risk_level (predictDropoutRisk st) = Medium \<longleftrightarrow>
        lit (4 / 10) \<le> riskScore st \<and> riskScore st < lit (7 / 10))
   \<and> (risk_level (predictDropoutRisk st) = Low \<longleftrightarrow> riskScore st < lit (4 / 10))"
  using level_cut_vals(2) unfolding predictDropoutRisk_def Let_def by auto

lemma risk_score_by_level:
  "(case risk_level (predictDropoutRisk st) of
      High \<Rightarrow> lit (70 / 100) \<le> risk_score (predictDropoutRisk st)
    | Medium \<Rightarrow> lit (40 / 100) \<le> risk_score (predictDropoutRisk st)
                \<and> risk_score (predictDropoutRisk st) \<le> lit (70 / 100)
    | Low \<Rightarrow> risk_score (predictDropoutRisk st) \<le> lit (40 / 100))"
proof -
  have pos: "0 \<le> riskScore st" "0 \<le> lit (4 / 10)" "0 \<le> lit (7 / 10)"
    using riskScore_bounds [of st] level_cut_vals by (auto intro: lit_nonneg)
  have rs: "risk_score (predictDropoutRisk st) = round2 (riskScore st)"
    by (simp add: predictDropoutRisk_def)
  show ?thesis
  proof (cases "risk_level (predictDropoutRisk st)")
    case Low
    then have "riskScore st \<le> lit (4 / 10)" using risk_level_by_score [of st] by simp
    then have "round2 (riskScore st) \<le> round2 (lit (4 / 10))" using pos by (intro round2_mono)
    then show ?thesis unfolding round2_vals rs Low by simp
  next
    case Medium
    then have "lit (4 / 10) \<le> riskScore st" "riskScore st \<le> lit (7 / 10)"
      using risk_level_by_score [of st] by simp_all
    then have "round2 (lit (4 / 10)) \<le> round2 (riskScore st)"
      "round2 (riskScore st) \<le> round2 (lit (7 / 10))" using pos by (auto intro!: round2_mono)
    then show ?thesis unfolding round2_vals rs Medium by simp
  next
    case High
    then have "lit (7 / 10) \<le> riskScore st" using risk_level_by_score [of st] by simp
    then have "round2 (lit (7 / 10)) \<le> round2 (riskScore st)" using pos by (intro round2_mono)
    then show ?thesis unfolding round2_vals rs High by simp
  qed
qed

text \<open>
  C1, as stated, fails: the level is taken from the unrounded score and the returned score
  is rounded afterwards. The student \<open>edge_low_student\<close> has the unrounded score
  \<open>0.395\<close>: the level is \<open>Low\<close> and the returned score is \<open>0.40\<close>, so "medium iff
  0.40 \<le> score < 0.70" is false there. The student \<open>edge_medium_student\<close> has the
  level \<open>Medium\<close> and the returned score \<open>0.70\<close>, so "high iff score \<ge> 0.70" is false
  there.
\<close>

theorem C1_counterexample:
  "\<not> (risk_level (predictDropoutRisk edge_low_student) = Medium \<longleftrightarrow>
        lit (40 / 100) \<le> risk_score (predictDropoutRisk edge_low_student)
        \<and> risk_score (predictDropoutRisk edge_low_student) < lit (70 / 100))
   \<and> \<not> (risk_level (predictDropoutRisk edge_medium_student) = High \<longleftrightarrow>
        lit (70 / 100) \<le> risk_score (predictDropoutRisk edge_medium_student))"
proof -
  have "lit (40 / 100) < lit (70 / 100)" by (simp add: num_eval)
  then show ?thesis unfolding edge_low_result edge_medium_result by simp
qed

text \<open>
  C1, amended. For every student the returned score lies between 0 and 1, and the level is
  decided by the unrounded weighted score: \<open>High\<close> iff it is at least \<open>0.70\<close>,
  \<open>Medium\<close> iff it is at least \<open>0.40\<close> and below \<open>0.70\<close>, \<open>Low\<close> iff it is below
  \<open>0.40\<close>. Of the returned, rounded score the level gives one direction only: \<open>High\<close>
  has a score of at least \<open>0.70\<close>, \<open>Medium\<close> one between \<open>0.40\<close> and \<open>0.70\<close>
  (both included), \<open>Low\<close> one of at most \<open>0.40\<close>.
\<close>

theorem C1_score_range_and_level:
  "0 \<le> risk_score (predictDropoutRisk st) \<and> risk_score (predictDropoutRisk st) \<le> 1
   \<and> (risk_level (predictDropoutRisk st) = High \<longleftrightarrow> lit (7 / 10) \<le> riskScore st)
   \<and> (risk_level (predictDropoutRisk st) = Medium \<longleftrightarrow>
        lit (4 / 10) \<le> riskScore st \<and> riskScore st < lit (7 / 10))
   \<and> (risk_level (predictDropoutRisk st) = Low \<longleftrightarrow> riskScore st < lit (4 / 10))
   \<and> (case risk_level (predictDropoutRisk st) of
        High \<Rightarrow> lit (70 / 100) \<le> risk_score (predictDropoutRisk st)
      | Medium \<Rightarrow> lit (40 / 100) \<le> risk_score (predictDropoutRisk st)
                  \<and> risk_score (predictDropoutRisk st) \<le> lit (70 / 100)
      | Low \<Rightarrow> risk_score (predictDropoutRisk st) \<le> lit (40 / 100))"
  using risk_score_bounds [of st] level_cut_vals(4,5) risk_level_by_score [of st]
    risk_score_by_level [of st]
  by simp

text \<open>An instance of the amended C1 at the student with every calculator at its maximum.\<close>

theorem C1_witness:
  "risk_level (predictDropoutRisk worst_student) = High
   \<and> lit (7 / 10) \<le> riskScore worst_student
   \<and> lit (70 / 100) \<le> risk_score (predictDropoutRisk worst_student)
   \<and> risk_score (predictDropoutRisk worst_student) \<le> 1"
  using C1_score_range_and_level [of worst_student] worst_student_level by simp





text \<open>
  Missing optional fields. An \<^verbatim>\<open>undefined\<close> family income contributes nothing: the
  financial risk is the one of an income of 500000, whose term is 0. A missing distance,
  \<^verbatim>\<open>undefined\<close> or \<^verbatim>\<open>null\<close>, contributes nothing to the demographic risk.
\<close>

lemma financial_risk_undefined_income:
  "calculateFinancialRisk fd sc Undefined = calculateFinancialRisk fd sc (Num 500000)"
  by (simp add: calculateFinancialRisk_def js_lt_def)

lemma demographic_risk_missing_distance:
  "distance_from_home st = Undefined \<or> distance_from_home st = Null \<Longrightarrow>
   calculateDemographicRisk st = calculateDemographicRisk (st \<lparr> distance_from_home := Num 0 \<rparr>)"
  by (auto simp: calculateDemographicRisk_def js_gt_def)

text \<open>
  C3 fails for a family income that is \<^verbatim>\<open>null\<close>, which is how the record store delivers
  a missing income: \<^verbatim>\<open>null !== undefined\<close> holds and \<^verbatim>\<open>null < 200000\<close> holds, so the
  low-income term \<open>0.3\<close> is added. A student with no fee default and a scholarship gets
  the financial risk \<open>0.3\<close> with a \<^verbatim>\<open>null\<close> income, and \<open>0\<close> with an
  \<^verbatim>\<open>undefined\<close> income or with an income whose term is 0.
\<close>

theorem C3_null_income_counts_as_low_income:
  "calculateFinancialRisk False True Null = lit (3 / 10)
   \<and> calculateFinancialRisk False True Undefined = 0
   \<and> calculateFinancialRisk False True (Num 500000) = 0
   \<and> financial_impact (prediction_factors (predictDropoutRisk (best_student \<lparr> family_income := Null \<rparr>)))
       = lit (3 / 10)
   \<and> financial_impact (prediction_factors (predictDropoutRisk best_student)) = 0"
proof -
  have a: "calculateFinancialRisk False True Null = lit (3 / 10)"
    "calculateFinancialRisk False True Undefined = 0"
    "calculateFinancialRisk False True (Num 500000) = 0"
    unfolding calculateFinancialRisk_def js_lt_def Let_def by (simp_all add: num_eval)
  have r: "round2 0 = 0" unfolding round2_def by (simp add: num_eval)
  have "financial_impact (prediction_factors (predictDropoutRisk (best_student \<lparr> family_income := Null \<rparr>)))
       = round2 (calculateFinancialRisk False True Null)"
    by (simp add: predictDropoutRisk_def best_student_def)
  moreover have "financial_impact (prediction_factors (predictDropoutRisk best_student))
       = round2 (calculateFinancialRisk False True Undefined)"
    by (simp add: predictDropoutRisk_def best_student_def)
  ultimately show ?thesis unfolding a round2_tenths r using a by simp
qed











section \<open>Claims about the request handler\<close>

declare persist.simps [simp del] chunks.simps [simp del]

lemma chunks_Nil [simp]: "chunks n [] = []"
  by (simp add: chunks.simps)

lemma chunks_step: "0 < n \<Longrightarrow> xs \<noteq> [] \<Longrightarrow> chunks n xs = take n xs # chunks n (drop n xs)"
  by (subst chunks.simps) simp

lemma concat_chunks: "0 < n \<Longrightarrow> concat (chunks n xs) = xs"
proof (induction n xs rule: chunks.induct)
  case (1 n xs)
  show ?case
  proof (cases "xs = []")
    case True
    then show ?thesis by simp
  next
    case False
    with 1 show ?thesis by (simp add: chunks_step)
  qed
qed

lemma chunks_sizes: "0 < n \<Longrightarrow> list_all (\<lambda>b. 0 < length b \<and> length b \<le> n) (chunks n xs)"
proof (induction n xs rule: chunks.induct)
  case (1 n xs)
  show ?case
  proof (cases "xs = []")
    case True
    then show ?thesis by simp
  next
    case False
    with 1 show ?thesis by (simp add: chunks_step)
  qed
qed

lemma persisted_of_append: "persisted_of (cs @ ds) = persisted_of cs @ persisted_of ds"
  by (induction cs rule: persisted_of.induct) simp_all

lemma batches_of_write_all: "batches_of (snd (write_all cl st bs)) = bs"
  by (induction bs arbitrary: st) (simp_all add: split_beta Let_def)

lemma persist_write_all:
  "persist cl ps i u st calls =
     (u + length (concat (persisted_of (snd (write_all cl st (chunks batchSize (map to_update (drop i ps))))))),
      fst (write_all cl st (chunks batchSize (map to_update (drop i ps)))),
      calls @ snd (write_all cl st (chunks batchSize (map to_update (drop i ps)))))"
proof (induction cl ps i u st calls rule: persist.induct)
  case (1 cl ps i u st calls)
  show ?case
  proof (cases "i < length ps")
    case False
    then show ?thesis by (subst persist.simps) simp
  next
    case True
    define batch where "batch = slice ps i (i + batchSize)"
    define us where "us = map to_update batch"
    obtain err st1 where up: "upsert cl us st = (err, st1)" by (cases "upsert cl us st")
    have ne: "map to_update (drop i ps) \<noteq> []" using True by simp
    have ch: "chunks batchSize (map to_update (drop i ps))
        = us # chunks batchSize (map to_update (drop (i + batchSize) ps))"
      using chunks_step [OF _ ne, of batchSize]
      by (simp add: batchSize_def us_def batch_def slice_def take_map drop_map add.commute)
    have lb: "length us = length batch" by (simp add: us_def)
    show ?thesis
    proof (cases err)
      case None
      have "persist cl ps i u st calls
          = persist cl ps (i + batchSize) (u + length batch) st1 (calls @ [Upsert us True])"
        using True up None by (subst persist.simps) (simp add: batch_def us_def Let_def)
      also note "1.IH"(1) [OF True batch_def us_def refl up [symmetric] None]
      finally show ?thesis
        by (simp add: ch up None split_beta lb)
    next
      case (Some e)
      have "persist cl ps i u st calls
          = persist cl ps (i + batchSize) u st1 (calls @ [Upsert us False])"
        using True up Some by (subst persist.simps) (simp add: batch_def us_def Let_def)
      also note "1.IH"(2) [OF True batch_def us_def refl up [symmetric] Some]
      finally show ?thesis
        by (simp add: ch up Some split_beta)
    qed
  qed
qed

lemma run_predictions_write_all:
  "run_predictions cl students st =
     (\<lparr> status = 200,
        body = Summary (length (concat (persisted_of (snd (write_all cl st (chunks 50 (updates_of students)))))))
                 (length students) \<rparr>,
      write_all cl st (chunks 50 (updates_of students)))"
  by (simp add: run_predictions_def persist_write_all updates_of_def batchSize_def Let_def comp_def)

text \<open>
  C4. A run that reaches the persistence phase writes the computed updates in batches of
  50, in order, the last batch holding the remainder: the store and the log of calls are
  those of writing the batches one after the other, each exactly once, whatever the
  outcome of the ones before. So the updates of a failed batch are not written again and
  the batches after it are still written. The response is the summary with status 200,
  never an error, whatever fails: \<open>totalCount\<close> is the number of students considered and
  \<open>processedCount\<close> the number of updates in the batches that were persisted.
\<close>

theorem C4_batches_of_50_best_effort:
  "snd (run_predictions cl students st) = write_all cl st (chunks 50 (updates_of students))
   \<and> fst (run_predictions cl students st) =
       \<lparr> status = 200,
         body = Summary (length (concat (persisted_of (snd (snd (run_predictions cl students st))))))
                  (length students) \<rparr>
   \<and> batches_of (snd (snd (run_predictions cl students st))) = chunks 50 (updates_of students)
   \<and> concat (batches_of (snd (snd (run_predictions cl students st)))) = updates_of students
   \<and> list_all (\<lambda>b. 0 < length b \<and> length b \<le> 50)
        (batches_of (snd (snd (run_predictions cl students st))))"
  using concat_chunks [of 50 "updates_of students"] chunks_sizes [of 50 "updates_of students"]
  by (simp add: run_predictions_write_all batches_of_write_all)

lemma chunks_class_of_51:
  "chunks 50 (updates_of class_of_51) =
     [replicate 50 (to_update (''worst'', predictDropoutRisk worst_student)),
      [to_update (''best'', predictDropoutRisk best_student)]]"
proof -
  have ids: "id' worst_student = ''worst''" "id' best_student = ''best''"
    by (simp_all add: worst_student_def best_student_def)
  have "updates_of class_of_51 =
      replicate 50 (to_update (''worst'', predictDropoutRisk worst_student))
      @ [to_update (''best'', predictDropoutRisk best_student)]"
    by (simp add: updates_of_def class_of_51_def ids del: to_update.simps)
  then show ?thesis
    by (simp add: chunks_step del: to_update.simps)
qed

lemma write_all_class_of_51:
  "snd (write_all mem_client store_failing_worst (chunks 50 (updates_of class_of_51))) =
     [Upsert (replicate 50 (to_update (''worst'', predictDropoutRisk worst_student))) False,
      Upsert [to_update (''best'', predictDropoutRisk best_student)] True]"
  unfolding chunks_class_of_51
  by (simp add: mem_client_def store_failing_worst_def list_ex_iff)

text \<open>An instance of C4: 51 students, the first batch fails, the second is persisted.\<close>

theorem C4_witness:
  "fst (run_predictions mem_client class_of_51 store_failing_worst)
     = \<lparr> status = 200, body = Summary 1 51 \<rparr>
   \<and> snd (snd (run_predictions mem_client class_of_51 store_failing_worst))
     = [Upsert (replicate 50 (to_update (''worst'', predictDropoutRisk worst_student))) False,
        Upsert [to_update (''best'', predictDropoutRisk best_student)] True]"
proof -
  have n: "length class_of_51 = 51" by (simp add: class_of_51_def)
  from C4_batches_of_50_best_effort [of mem_client class_of_51 store_failing_worst]
  have "snd (snd (run_predictions mem_client class_of_51 store_failing_worst))
      = snd (write_all mem_client store_failing_worst (chunks 50 (updates_of class_of_51)))"
    and "fst (run_predictions mem_client class_of_51 store_failing_worst) =
       \<lparr> status = 200,
         body = Summary (length (concat (persisted_of
                  (snd (snd (run_predictions mem_client class_of_51 store_failing_worst))))))
                  (length class_of_51) \<rparr>"
    by simp_all
  then show ?thesis unfolding write_all_class_of_51 n by simp
qed

lemma calls_of_write_all: "SelectIn l \<notin> set (snd (write_all cl st bs))"
  by (induction bs arbitrary: st) (simp_all add: split_beta Let_def)

lemma calls_of_run_predictions: "SelectIn l \<notin> set (snd (snd (run_predictions cl students st)))"
  by (simp add: run_predictions_write_all calls_of_write_all)

lemma chunks_short: "xs \<noteq> [] \<Longrightarrow> length xs \<le> 50 \<Longrightarrow> chunks 50 xs = [xs]"
  by (simp add: chunks_step)

text \<open>
  C5, as stated, fails for a request with an empty list of identifiers and a true flag:
  the flag is tested first, so the unscored students are read from the store, scored and
  written back, and the response is the summary with status 200.
\<close>

theorem C5_counterexample:
  "studentIds (projr (json request_flag_and_empty_list)) = Some []
   \<and> fst (serve mem_client request_flag_and_empty_list store_one)
       = \<lparr> status = 200, body = Summary 1 1 \<rparr>
   \<and> snd (snd (serve mem_client request_flag_and_empty_list store_one))
       = [SelectIsNull, Upsert [to_update (''best'', predictDropoutRisk best_student)] True]"
proof -
  have ids: "id' best_student = ''best''" by (simp add: best_student_def)
  have sel: "select_risk_score_is_null mem_client store_one = (Some [best_student], None)"
    by (simp add: mem_client_def store_one_def)
  have ch: "chunks 50 (updates_of [best_student]) = [[to_update (''best'', predictDropoutRisk best_student)]]"
    by (simp add: chunks_short updates_of_def ids del: to_update.simps)
  have "run_predictions mem_client [best_student] store_one =
      (\<lparr> status = 200, body = Summary 1 1 \<rparr>,
       snd (upsert mem_client [to_update (''best'', predictDropoutRisk best_student)] store_one),
       [Upsert [to_update (''best'', predictDropoutRisk best_student)] True])"
    unfolding run_predictions_write_all ch
    by (simp add: mem_client_def store_one_def)
  then show ?thesis
    by (simp add: serve_def request_flag_and_empty_list_def sel)
qed

text \<open>
  C5, amended. A request whose flag is absent or false and whose list of identifiers is
  absent or empty is answered with status 400 and an error message; no call is made on the
  store, which is unchanged.
\<close>

theorem C5_no_selection_is_invalid_request:
  assumes "req_method req \<noteq> ''OPTIONS''" and "json req = Inr b"
    and "processNewStudents b \<noteq> Some True"
    and "studentIds b = None \<or> studentIds b = Some []"
  shows "serve cl req st =
    (\<lparr> status = 400, body = ErrorBody ''No students specified for prediction'' \<rparr>, st, [])"
  using assms by (auto simp: serve_def)

text \<open>An instance of the amended C5 at the request with neither property.\<close>

theorem C5_witness:
  "req_method request_empty \<noteq> ''OPTIONS''
   \<and> processNewStudents (projr (json request_empty)) \<noteq> Some True
   \<and> studentIds (projr (json request_empty)) = None
   \<and> serve mem_client request_empty store_one =
       (\<lparr> status = 400, body = ErrorBody ''No students specified for prediction'' \<rparr>, store_one, [])"
proof -
  have a: "req_method request_empty \<noteq> ''OPTIONS''"
    and b: "json request_empty = Inr \<lparr> studentIds = None, processNewStudents = None \<rparr>"
    by (simp_all add: request_empty_def)
  from C5_no_selection_is_invalid_request [OF a b, of mem_client store_one] a b
  show ?thesis by simp
qed

text \<open>With a true flag the list of identifiers is not looked at, whatever it holds: the
  handler answers as it does without the list.\<close>

lemma serve_true_flag_ignores_list:
  assumes "req_method req \<noteq> ''OPTIONS''" and "json req = Inr b"
    and "processNewStudents b = Some True"
  shows "serve cl req st = serve cl (req \<lparr> json := Inr (b \<lparr> studentIds := None \<rparr>) \<rparr>) st"
  using assms by (simp add: serve_def)

text \<open>
  C10. When the flag is true and a non-empty list of identifiers is supplied, the flag
  takes precedence: the handler answers as it does without the list, its first call on
  the store is the query for a null risk score, whose result is the population, and it
  never selects by identifier. In the in-memory store that query returns exactly the
  students whose scoring columns are null.
\<close>

theorem C10_flag_takes_precedence:
  assumes "req_method req \<noteq> ''OPTIONS''" and "json req = Inr b"
    and "processNewStudents b = Some True" and "studentIds b = Some ids" and "ids \<noteq> []"
  shows "serve cl req st = serve cl (req \<lparr> json := Inr (b \<lparr> studentIds := None \<rparr>) \<rparr>) st
    \<and> serve cl req st =
        (case select_risk_score_is_null cl st of
           (data, Some e) \<Rightarrow> (failure e, st, [SelectIsNull])
         | (data, None) \<Rightarrow>
             (fst (run_predictions cl (data_or_empty data) st),
              fst (snd (run_predictions cl (data_or_empty data) st)),
              SelectIsNull # snd (snd (run_predictions cl (data_or_empty data) st))))
    \<and> hd (snd (snd (serve cl req st))) = SelectIsNull
    \<and> SelectIn l \<notin> set (snd (snd (serve cl req st)))
    \<and> select_risk_score_is_null mem_client m
        = (Some (map fst (filter (\<lambda>row. snd row = None) (table m))), None)"
proof -
  have s: "serve cl req st =
        (case select_risk_score_is_null cl st of
           (data, Some e) \<Rightarrow> (failure e, st, [SelectIsNull])
         | (data, None) \<Rightarrow>
             (fst (run_predictions cl (data_or_empty data) st),
              fst (snd (run_predictions cl (data_or_empty data) st)),
              SelectIsNull # snd (snd (run_predictions cl (data_or_empty data) st))))"
    using assms by (simp add: serve_def split_beta split: prod.splits option.splits)
  have "serve cl req st = serve cl (req \<lparr> json := Inr (b \<lparr> studentIds := None \<rparr>) \<rparr>) st"
    using assms by (simp add: serve_def)
  moreover have "hd (snd (snd (serve cl req st))) = SelectIsNull"
    unfolding s by (simp split: prod.splits option.splits)
  moreover have "SelectIn l \<notin> set (snd (snd (serve cl req st)))"
    unfolding s by (simp add: calls_of_run_predictions split: prod.splits option.splits)
  moreover have "select_risk_score_is_null mem_client m
        = (Some (map fst (filter (\<lambda>row. snd row = None) (table m))), None)"
    by (simp add: mem_client_def)
  ultimately show ?thesis using s by simp
qed

text \<open>An instance of C10: the listed student is scored already and is not selected.\<close>

theorem C10_witness:
  "req_method request_flag_and_list \<noteq> ''OPTIONS''
   \<and> processNewStudents (projr (json request_flag_and_list)) = Some True
   \<and> studentIds (projr (json request_flag_and_list)) = Some [''worst'']
   \<and> fst (serve mem_client request_flag_and_list store_three) = \<lparr> status = 200, body = Summary 2 2 \<rparr>
   \<and> snd (snd (serve mem_client request_flag_and_list store_three))
       = [SelectIsNull,
          Upsert [to_update (''best'', predictDropoutRisk best_student),
                  to_update (''scenario2'', predictDropoutRisk scenario2)] True]"
proof -
  have a: "req_method request_flag_and_list \<noteq> ''OPTIONS''"
    and b: "json request_flag_and_list = Inr \<lparr> studentIds = Some [''worst''], processNewStudents = Some True \<rparr>"
    by (simp_all add: request_flag_and_list_def)
  have ids: "id' best_student = ''best''" "id' scenario2 = ''scenario2''"
    by (simp_all add: best_student_def scenario2_def)
  have sel: "select_risk_score_is_null mem_client store_three = (Some [best_student, scenario2], None)"
    by (simp add: mem_client_def store_three_def del: to_update.simps)
  have ch: "chunks 50 (updates_of [best_student, scenario2])
      = [[to_update (''best'', predictDropoutRisk best_student),
          to_update (''scenario2'', predictDropoutRisk scenario2)]]"
    by (simp add: chunks_short updates_of_def ids del: to_update.simps)
  have run: "fst (run_predictions mem_client [best_student, scenario2] store_three)
       = \<lparr> status = 200, body = Summary 2 2 \<rparr>"
    "snd (snd (run_predictions mem_client [best_student, scenario2] store_three))
       = [Upsert [to_update (''best'', predictDropoutRisk best_student),
                  to_update (''scenario2'', predictDropoutRisk scenario2)] True]"
    unfolding run_predictions_write_all ch
    by (simp_all add: mem_client_def store_three_def del: to_update.simps)
  have c: "processNewStudents \<lparr> studentIds = Some [''worst''], processNewStudents = Some True \<rparr>
      = Some True"
    and d: "studentIds \<lparr> studentIds = Some [''worst''], processNewStudents = Some True \<rparr>
      = Some [''worst'']"
    and e: "[''worst''] \<noteq> []"
    by simp_all
  from C10_flag_takes_precedence [OF a b c d e, where cl = mem_client
      and st = store_three and l = "[]" and m = store_three]
  have "serve mem_client request_flag_and_list store_three =
        (case select_risk_score_is_null mem_client store_three of
           (data, Some e) \<Rightarrow> (failure e, store_three, [SelectIsNull])
         | (data, None) \<Rightarrow>
             (fst (run_predictions mem_client (data_or_empty data) store_three),
              fst (snd (run_predictions mem_client (data_or_empty data) store_three)),
              SelectIsNull # snd (snd (run_predictions mem_client (data_or_empty data) store_three))))"
    by blast
  then have "serve mem_client request_flag_and_list store_three =
        (fst (run_predictions mem_client [best_student, scenario2] store_three),
         fst (snd (run_predictions mem_client [best_student, scenario2] store_three)),
         SelectIsNull # snd (snd (run_predictions mem_client [best_student, scenario2] store_three)))"
    unfolding sel by simp
  then show ?thesis using a b run by simp
qed


section \<open>Claims about the upload parser\<close>

lemma convert_name: "convert bs ''name'' v = Str v"
  by (simp add: convert_def)

lemma convert_required_fields:
  "convert bs ''email'' v = Str v" "convert bs ''student_id'' v = Str v"
  "convert bs ''department'' v = Str v"
  by (simp_all add: convert_def)

lemma convert_required: "f \<in> set required \<Longrightarrow> convert bs f v = Str v"
  unfolding required_def using convert_name convert_required_fields by fastforce

lemma has_update:
  "has (AList.update g c student) f = (if g = f then truthy_cell c else has student f)"
  by (simp add: has_def update_conv')

lemma has_fill:
  assumes "f \<in> set required"
  shows "has (fill bs headers vs student) f
    \<longleftrightarrow> has student f \<or> nonempty_after_mapping bs headers vs f"
proof (induction headers arbitrary: vs student)
  case Nil
  then show ?case by (simp add: nonempty_after_mapping_def)
next
  case (Cons h hs)
  show ?case
  proof (cases vs)
    case Nil
    then show ?thesis
      using Cons.IH [of "[]" student]
      by (simp add: nonempty_after_mapping_def split: option.splits)
  next
    case (Cons v vs')
    then show ?thesis
      using Cons.IH [of vs'] convert_required [OF assms, of bs v]
      by (auto simp: nonempty_after_mapping_def has_update split: option.splits)
  qed
qed

lemma has_Nil: "\<not> has [] f"
  by (simp add: has_def)

lemma valid_iff:
  "has (fill bs headers vs []) ''name'' \<and> has (fill bs headers vs []) ''email''
   \<and> has (fill bs headers vs []) ''student_id'' \<and> has (fill bs headers vs []) ''department''
   \<longleftrightarrow> \<not> list_ex (\<lambda>f. \<not> nonempty_after_mapping bs headers vs f) required"
proof -
  have e: "has (fill bs headers vs []) f = nonempty_after_mapping bs headers vs f"
    if "f \<in> set required" for f
    using that by (simp add: has_fill has_Nil)
  have "has (fill bs headers vs []) ''name'' = nonempty_after_mapping bs headers vs ''name''"
    "has (fill bs headers vs []) ''email'' = nonempty_after_mapping bs headers vs ''email''"
    "has (fill bs headers vs []) ''student_id'' = nonempty_after_mapping bs headers vs ''student_id''"
    "has (fill bs headers vs []) ''department'' = nonempty_after_mapping bs headers vs ''department''"
    by (rule e, simp add: required_def)+
  then show ?thesis unfolding required_def by simp blast
qed

lemma rows_loop_filter:
  "rows_loop bs headers lines students =
     students @ map (\<lambda>line. fill bs headers (values_of line) [])
                  (filter (\<lambda>line. \<not> excluded bs headers line) lines)"
proof (induction lines arbitrary: students)
  case Nil
  then show ?case by simp
next
  case (Cons line lines)
  show ?case
  proof (cases "length (values_of line) < length headers")
    case True
    then show ?thesis using Cons.IH by (simp add: excluded_def)
  next
    case False
    then show ?thesis
      using Cons.IH valid_iff [of bs headers "values_of line"]
      by (simp add: excluded_def Let_def)
  qed
qed

text \<open>
  C8. The parser fails when the upload has fewer than two non-blank lines. Otherwise it
  returns, in order, the objects of the data rows that are not excluded, and a row is
  excluded exactly when it has fewer fields than the header row or one of the four
  required fields is empty after the header mapping. A row whose name is empty is excluded
  whatever its other fields, and the rows after an excluded row are still processed.
\<close>

theorem C8_rows_excluded:
  "parseCSVContent bs content =
     (if length (lines_of content) < 2
      then Inl ''File must contain header row and at least one data row''
      else Inr (map (\<lambda>line. fill bs (headers_of bs (hd (lines_of content))) (values_of line) [])
                 (filter (\<lambda>line. \<not> excluded bs (headers_of bs (hd (lines_of content))) line)
                    (tl (lines_of content)))))
   \<and> (\<not> nonempty_after_mapping bs headers (values_of line) ''name'' \<longrightarrow> excluded bs headers line)"
  by (simp add: parseCSVContent_def rows_loop_filter Let_def excluded_def required_def)

lemmas csv_eval = str_def trim_def is_space_def values_of_def lines_of_def headers_of_def
  headerMap_def nonempty_after_mapping_def excluded_def required_def convert_def or_zero_def
  example_builtins_def parse_digits_def lower_ascii_def

text \<open>White space beyond ASCII: a field that holds only a no-break space is empty after
  \<^verbatim>\<open>trim\<close>, and an upload whose only data line holds a no-break space has no data row,
  so the parser fails.\<close>

lemma trim_no_break_space:
  "trim [0xA0] = []"
  "trim (str '' x '' @ [0xA0, 0x3000]) = str ''x''"
  "parseCSVContent example_builtins blank_upload
     = Inl ''File must contain header row and at least one data row''"
  by (simp_all add: csv_eval blank_upload_def parseCSVContent_def)

text \<open>A header named \<^verbatim>\<open>constructor\<close> or \<^verbatim>\<open>__proto__\<close> adds a property to the
  object; an unknown header adds none.\<close>

lemma inherited_headers:
  "fill example_builtins [str ''constructor'', str ''__proto__'', str ''phone''] [str ''x'', str ''y'', str ''z''] []
     = [(''function Object() { [native code] }'', Str (str ''x'')), (''[object Object]'', Str (str ''y''))]"
  by (simp add: csv_eval)

lemma example_lines:
  "length (lines_of example_upload) = 6"
  "headers_of example_builtins (hd (lines_of example_upload))
     = [str ''name'', str ''email'', str ''studentid'', str ''department'', str ''semester'']"
  "tl (lines_of example_upload) =
     [str ''Ada,ada@x.org,S1,Math,5'', str '',bob@x.org,S2,Physics,3'', str ''Cy,cy@x.org,S3'',
      [0xA0] @ str '',eve@x.org,S5,Law,2'', str ''Dee,dee@x.org,S4,Art,x'']"
  by (simp_all add: csv_eval example_upload_def)

lemma example_rows:
  "filter (\<lambda>line. \<not> excluded example_builtins
             [str ''name'', str ''email'', str ''studentid'', str ''department'', str ''semester'']
             line)
     [str ''Ada,ada@x.org,S1,Math,5'', str '',bob@x.org,S2,Physics,3'', str ''Cy,cy@x.org,S3'',
      [0xA0] @ str '',eve@x.org,S5,Law,2'', str ''Dee,dee@x.org,S4,Art,x'']
   = [str ''Ada,ada@x.org,S1,Math,5'', str ''Dee,dee@x.org,S4,Art,x'']"
  by (simp add: csv_eval)

lemma example_objects:
  "map (\<lambda>line. fill example_builtins
          [str ''name'', str ''email'', str ''studentid'', str ''department'', str ''semester'']
          (values_of line) [])
     [str ''Ada,ada@x.org,S1,Math,5'', str ''Dee,dee@x.org,S4,Art,x'']
   = [[(''name'', Str (str ''Ada'')), (''email'', Str (str ''ada@x.org'')),
       (''student_id'', Str (str ''S1'')), (''department'', Str (str ''Math'')),
       (''semester'', Number (Finite 5))],
      [(''name'', Str (str ''Dee'')), (''email'', Str (str ''dee@x.org'')),
       (''student_id'', Str (str ''S4'')), (''department'', Str (str ''Art'')),
       (''semester'', Number (Finite 0))]]"
  by (simp add: csv_eval)

text \<open>An instance of C8 at the concrete upload: the row with the empty name, the row with
  three fields and the row whose name is a no-break space are excluded, the rows after
  them are processed.\<close>

theorem C8_witness:
  "\<not> nonempty_after_mapping example_builtins
       [str ''name'', str ''email'', str ''studentid'', str ''department'', str ''semester'']
       (values_of ([0xA0] @ str '',eve@x.org,S5,Law,2'')) ''name''
   \<and> excluded example_builtins
       [str ''name'', str ''email'', str ''studentid'', str ''department'', str ''semester'']
       ([0xA0] @ str '',eve@x.org,S5,Law,2'')
   \<and> parseCSVContent example_builtins example_upload =
      Inr [[(''name'', Str (str ''Ada'')), (''email'', Str (str ''ada@x.org'')),
            (''student_id'', Str (str ''S1'')), (''department'', Str (str ''Math'')),
            (''semester'', Number (Finite 5))],
           [(''name'', Str (str ''Dee'')), (''email'', Str (str ''dee@x.org'')),
            (''student_id'', Str (str ''S4'')), (''department'', Str (str ''Art'')),
            (''semester'', Number (Finite 0))]]"
proof -
  have n: "\<not> nonempty_after_mapping example_builtins
       [str ''name'', str ''email'', str ''studentid'', str ''department'', str ''semester'']
       (values_of ([0xA0] @ str '',eve@x.org,S5,Law,2'')) ''name''"
    by (simp add: csv_eval)
  from C8_rows_excluded [of example_builtins example_upload
      "[str ''name'', str ''email'', str ''studentid'', str ''department'', str ''semester'']"
      "[0xA0] @ str '',eve@x.org,S5,Law,2''"]
  show ?thesis
    unfolding example_lines example_rows example_objects using n by simp
qed

end
